theory Spec2Isabelle
  imports Complex_Main "HOL-Library.Sublist" "HOL-Library.Char_ord" "HOL-Library.List_Lexorder"
begin

section \<open>German power market dashboard: loaders, date filter and summaries\<close>

text \<open>
  The notebook defines two loaders (\<open>load_generation_data\<close>, \<open>load_price_data\<close>) and two
  callbacks (\<open>update_generation_graph\<close>, \<open>update_price_graph\<close>). Each callback loads its
  file, restricts the rows to a date interval and computes per-column summaries.

  Conventions of the embedding.
  \<^item> A float is a \<open>pyfloat\<close>: a finite value, written as a rational number, an
    infinity, or NaN. Comparing two floats is defined here. Reading a float from a text,
    adding floats and dividing a float round their results, and are not defined here: they
    belong to the library (see below).
  \<^item> A pandas column is a \<open>series\<close> tagged with its dtype. An object column, as
    \<open>pd.read_csv\<close> produces it, holds strings and missing values; columns that
    \<open>read_csv\<close> parsed as integers are represented as \<open>Float64\<close>.
  \<^item> A data frame is the list of its labelled columns, in column order. The labels of a
    frame that \<open>read_csv\<close> returns are distinct; after the header cleanup they need not be.
  \<^item> Library behaviour is that of Python 3 and pandas 2. \<open>pd.read_csv\<close> is not modelled:
    its result is part of the state of the disk. Four library functions are parameters of
    the loaders and callbacks, collected in the record \<open>library\<close>: \<open>pd.to_datetime\<close>,
    Python's \<open>float\<close> on a string, numpy's sum of an array of floats, and the division of a
    float by a count. Every statement below that mentions a library holds for every
    library. The examples are evaluated with the small library defined beside the example
    files.
  \<^item> Of a callback's two outputs, the figure is the list of its traces and the summary
    is the list of the numbers it displays; layout and number formatting are left out.
\<close>

subsection \<open>Floats\<close>

datatype pyfloat = Fin rat | PInf | NInf | NaN

subsection \<open>Header cleanup\<close>

text \<open>
  \<open>str.split(sep)\<close> for a non-empty separator, scanning left to right; the second
  argument collects the current piece in reverse.
\<close>

fun split_acc :: "string \<Rightarrow> string \<Rightarrow> string \<Rightarrow> string list" where
  "split_acc sep cur [] = [rev cur]"
| "split_acc sep cur (c # cs) =
     (if sep \<noteq> [] \<and> prefix sep (c # cs)
      then rev cur # split_acc sep [] (drop (length sep) (c # cs))
      else split_acc sep (c # cur) cs)"

definition py_split :: "string \<Rightarrow> string \<Rightarrow> string list" where
  "py_split s sep = split_acc sep [] s"

text \<open>\<open>col.split(' [')[0] if '[' in col else col\<close>\<close>

definition clean_header :: "string \<Rightarrow> string" where
  "clean_header col = (if CHR ''['' \<in> set col then hd (py_split col '' ['') else col)"

subsection \<open>Columns and data frames\<close>

datatype error = FileNotFoundError | KeyError | AttributeError | ValueError | IndexError | TypeError

text \<open>A \<open>datetime64\<close> value: a point in time (nanoseconds since the epoch) or \<open>NaT\<close>.\<close>

datatype timestamp = NaT | At int

text \<open>An element of an object column: a string, or the NaN that marks a missing field.\<close>

datatype pyobj = Str string | Missing

datatype series = Object "pyobj list" | Float64 "pyfloat list" | Datetime64 "timestamp list"

type_synonym dataframe = "(string \<times> series) list"

text \<open>
  The two hard-coded CSV files, each as what \<open>pd.read_csv(path, sep=';')\<close> returns for
  it: an error, or the frame of raw columns (labels as in the header row).
\<close>

record world =
  generation_csv :: "error + dataframe"
  price_csv :: "error + dataframe"

text \<open>
  The library functions that the code calls and that are taken as given:
  \<^item> \<open>to_datetime\<close> is \<open>pd.to_datetime\<close> on a column: an error, or the timestamps;
  \<^item> \<open>float_of_str\<close> is Python's \<open>float\<close> on a string, \<open>None\<close> standing for the
    \<open>ValueError\<close> it raises on a text it rejects;
  \<^item> \<open>array_sum\<close> is numpy's sum of a non-empty array of floats;
  \<^item> \<open>true_divide\<close> is the quotient of a float by a positive count, as a float.
\<close>

record library =
  to_datetime :: "series \<Rightarrow> error + timestamp list"
  float_of_str :: "string \<Rightarrow> pyfloat option"
  array_sum :: "pyfloat list \<Rightarrow> pyfloat"
  true_divide :: "pyfloat \<Rightarrow> nat \<Rightarrow> pyfloat"

text \<open>\<open>Series.replace(a, b)\<close> with two strings: whole values equal to \<open>a\<close> become \<open>b\<close>.\<close>

definition series_replace :: "string \<Rightarrow> string \<Rightarrow> series \<Rightarrow> series" where
  "series_replace a b s =
     (case s of
        Object xs \<Rightarrow> Object (map (\<lambda>x. if x = Str a then Str b else x) xs)
      | Float64 ys \<Rightarrow> Float64 ys
      | Datetime64 ts \<Rightarrow> Datetime64 ts)"

text \<open>\<open>str.replace(old, new)\<close> for a one-character \<open>old\<close>: every occurrence is replaced.\<close>

definition str_replace :: "char \<Rightarrow> string \<Rightarrow> string \<Rightarrow> string" where
  "str_replace old new s = concat (map (\<lambda>c. if c = old then new else [c]) s)"

text \<open>
  \<open>Series.str.replace(old, new)\<close>: the \<open>.str\<close> accessor exists on object columns only
  (\<open>AttributeError\<close> otherwise); missing values stay missing.
\<close>

definition series_str_replace :: "char \<Rightarrow> string \<Rightarrow> series \<Rightarrow> error + series" where
  "series_str_replace old new s =
     (case s of
        Object xs \<Rightarrow>
          Inr (Object (map (\<lambda>x. case x of Str t \<Rightarrow> Str (str_replace old new t)
                                       | Missing \<Rightarrow> Missing) xs))
      | Float64 _ \<Rightarrow> Inl AttributeError
      | Datetime64 _ \<Rightarrow> Inl AttributeError)"

text \<open>One element under \<open>astype(float)\<close>: a string goes through \<open>float\<close>, a missing value is NaN.\<close>

definition to_float :: "library \<Rightarrow> pyobj \<Rightarrow> pyfloat option" where
  "to_float lib x = (case x of Str t \<Rightarrow> float_of_str lib t | Missing \<Rightarrow> Some NaN)"

text \<open>\<open>Series.astype(float)\<close>: one string that \<open>float\<close> rejects raises \<open>ValueError\<close>.\<close>

definition astype_float :: "library \<Rightarrow> series \<Rightarrow> error + series" where
  "astype_float lib s =
     (case s of
        Object xs \<Rightarrow>
          (case those (map (to_float lib) xs) of
             None \<Rightarrow> Inl ValueError
           | Some ys \<Rightarrow> Inr (Float64 ys))
      | Float64 ys \<Rightarrow> Inr (Float64 ys)
      | Datetime64 _ \<Rightarrow> Inl TypeError)"

text \<open>\<open>df[col] = f(df[col])\<close>: every column carrying the label is replaced.\<close>

definition set_columns :: "string \<Rightarrow> (series \<Rightarrow> series) \<Rightarrow> dataframe \<Rightarrow> dataframe" where
  "set_columns col f df = map (\<lambda>(n, s). if n = col then (n, f s) else (n, s)) df"

definition columns_named :: "string \<Rightarrow> dataframe \<Rightarrow> series list" where
  "columns_named col df = map snd (filter (\<lambda>(n, s). n = col) df)"

text \<open>\<open>df.columns.difference(['Start date', 'End date'])\<close>: the other labels, unique and sorted.\<close>

definition numeric_columns :: "dataframe \<Rightarrow> string list" where
  "numeric_columns df =
     sort (remdups (filter (\<lambda>n. n \<noteq> ''Start date'' \<and> n \<noteq> ''End date'') (map fst df)))"

text \<open>A \<open>for col in ...\<close> loop whose body may raise.\<close>

fun for_columns ::
  "(string \<Rightarrow> dataframe \<Rightarrow> error + dataframe) \<Rightarrow> string list \<Rightarrow> dataframe \<Rightarrow> error + dataframe"
where
  "for_columns body [] df = Inr df"
| "for_columns body (c # cs) df =
     (case body c df of Inl e \<Rightarrow> Inl e | Inr df' \<Rightarrow> for_columns body cs df')"

subsection \<open>The loaders\<close>

text \<open>
  The body of the loop in \<open>load_generation_data\<close>:
  \<^verbatim>\<open>df[col] = df[col].replace('-', '0')\<close>,
  \<^verbatim>\<open>df[col] = df[col].str.replace(',', '').astype(float)\<close>.
  When header cleanup has given several columns the label, \<open>df[col]\<close> is a sub-frame, which
  has no \<open>.str\<close>.
\<close>

definition generation_column :: "library \<Rightarrow> string \<Rightarrow> dataframe \<Rightarrow> error + dataframe" where
  "generation_column lib col df =
     (let df1 = set_columns col (series_replace ''-'' ''0'') df
      in case columns_named col df1 of
           [] \<Rightarrow> Inl KeyError
         | [s] \<Rightarrow>
             (case series_str_replace (CHR '','') [] s of
                Inl e \<Rightarrow> Inl e
              | Inr s1 \<Rightarrow>
                  (case astype_float lib s1 of
                     Inl e \<Rightarrow> Inl e
                   | Inr s2 \<Rightarrow> Inr (set_columns col (\<lambda>_. s2) df1)))
         | _ # _ # _ \<Rightarrow> Inl AttributeError)"

text \<open>
  \<open>load_generation_data()\<close>: read the file, convert \<open>Start date\<close>, clean the headers, then
  run the loop over the other columns.
\<close>

definition load_generation_data :: "library \<Rightarrow> world \<Rightarrow> error + dataframe" where
  "load_generation_data lib w =
     (case generation_csv w of
        Inl e \<Rightarrow> Inl e
      | Inr df \<Rightarrow>
          (case map_of df ''Start date'' of
             None \<Rightarrow> Inl KeyError
           | Some s \<Rightarrow>
               (case to_datetime lib s of
                  Inl e \<Rightarrow> Inl e
                | Inr ts \<Rightarrow>
                    (let df1 = set_columns ''Start date'' (\<lambda>_. Datetime64 ts) df;
                         df2 = map (\<lambda>(n, s). (clean_header n, s)) df1
                     in for_columns (generation_column lib) (numeric_columns df2) df2))))"

text \<open>
  \<open>isinstance(df[col].iloc[0], str)\<close> on a single column: \<open>None\<close> is the \<open>IndexError\<close> of
  a column without rows.
\<close>

definition iloc0_is_str :: "series \<Rightarrow> bool option" where
  "iloc0_is_str s =
     (case s of
        Object xs \<Rightarrow> (case xs of [] \<Rightarrow> None | x # _ \<Rightarrow> Some (x \<noteq> Missing))
      | Float64 ys \<Rightarrow> (case ys of [] \<Rightarrow> None | _ # _ \<Rightarrow> Some False)
      | Datetime64 ts \<Rightarrow> (case ts of [] \<Rightarrow> None | _ # _ \<Rightarrow> Some False))"

definition series_len :: "series \<Rightarrow> nat" where
  "series_len s =
     (case s of Object xs \<Rightarrow> length xs | Float64 ys \<Rightarrow> length ys | Datetime64 ts \<Rightarrow> length ts)"

text \<open>
  The body of the loop in \<open>load_price_data\<close>:
  \<^verbatim>\<open>df[col] = df[col].replace('-', '0')\<close>, then, only
  \<^verbatim>\<open>if isinstance(df[col].iloc[0], str)\<close>,
  \<^verbatim>\<open>df[col] = df[col].str.replace(',', '.').astype(float)\<close>.
  With a repeated label \<open>df[col].iloc[0]\<close> is the first row of a sub-frame, never a string.
\<close>

definition price_column :: "library \<Rightarrow> string \<Rightarrow> dataframe \<Rightarrow> error + dataframe" where
  "price_column lib col df =
     (let df1 = set_columns col (series_replace ''-'' ''0'') df
      in case columns_named col df1 of
           [] \<Rightarrow> Inl KeyError
         | [s] \<Rightarrow>
             (case iloc0_is_str s of
                None \<Rightarrow> Inl IndexError
              | Some False \<Rightarrow> Inr df1
              | Some True \<Rightarrow>
                  (case series_str_replace (CHR '','') ''.'' s of
                     Inl e \<Rightarrow> Inl e
                   | Inr s1 \<Rightarrow>
                       (case astype_float lib s1 of
                          Inl e \<Rightarrow> Inl e
                        | Inr s2 \<Rightarrow> Inr (set_columns col (\<lambda>_. s2) df1))))
         | s # _ # _ \<Rightarrow> (if series_len s = 0 then Inl IndexError else Inr df1))"

definition load_price_data :: "library \<Rightarrow> world \<Rightarrow> error + dataframe" where
  "load_price_data lib w =
     (case price_csv w of
        Inl e \<Rightarrow> Inl e
      | Inr df \<Rightarrow>
          (case map_of df ''Start date'' of
             None \<Rightarrow> Inl KeyError
           | Some s \<Rightarrow>
               (case to_datetime lib s of
                  Inl e \<Rightarrow> Inl e
                | Inr ts \<Rightarrow>
                    (let df1 = set_columns ''Start date'' (\<lambda>_. Datetime64 ts) df;
                         df2 = map (\<lambda>(n, s). (clean_header n, s)) df1
                     in for_columns (price_column lib) (numeric_columns df2) df2))))"

subsection \<open>Date filter\<close>

text \<open>Order on timestamps; every comparison with \<open>NaT\<close> is false.\<close>

fun ts_le :: "timestamp \<Rightarrow> timestamp \<Rightarrow> bool" where
  "ts_le (At a) (At b) = (a \<le> b)"
| "ts_le _ _ = False"

text \<open>
  \<open>df[col]\<close> in the callbacks: the column with that label. A missing label raises
  \<open>KeyError\<close>. With a repeated label pandas hands back a sub-frame, which none of the
  callbacks' uses (a row mask, \<open>float(...)\<close> of an aggregate) accepts; \<open>TypeError\<close>
  stands for that failure, and no statement below depends on its kind.
\<close>

definition getitem :: "dataframe \<Rightarrow> string \<Rightarrow> error + series" where
  "getitem df col =
     (case columns_named col df of
        [] \<Rightarrow> Inl KeyError
      | [s] \<Rightarrow> Inr s
      | _ # _ # _ \<Rightarrow> Inl TypeError)"

text \<open>
  \<open>(df['Start date'] >= start_date) & (df['Start date'] <= end_date)\<close>. The two bounds
  are the timestamps that the date picker's strings denote. Only a \<open>datetime64\<close> column
  can be compared with them.
\<close>

definition date_mask :: "series \<Rightarrow> timestamp \<Rightarrow> timestamp \<Rightarrow> error + bool list" where
  "date_mask s start_date end_date =
     (case s of
        Datetime64 ts \<Rightarrow> Inr (map (\<lambda>t. ts_le start_date t \<and> ts_le t end_date) ts)
      | Object _ \<Rightarrow> Inl TypeError
      | Float64 _ \<Rightarrow> Inl TypeError)"

text \<open>\<open>df.loc[mask]\<close>: the rows at which the mask \<open>keep\<close> is true, in order, in every column.\<close>

definition loc_list :: "bool list \<Rightarrow> 'a list \<Rightarrow> 'a list" where
  "loc_list keep xs = map snd (filter fst (zip keep xs))"

definition series_loc :: "bool list \<Rightarrow> series \<Rightarrow> series" where
  "series_loc keep s =
     (case s of
        Object xs \<Rightarrow> Object (loc_list keep xs)
      | Float64 ys \<Rightarrow> Float64 (loc_list keep ys)
      | Datetime64 ts \<Rightarrow> Datetime64 (loc_list keep ts))"

definition df_loc :: "bool list \<Rightarrow> dataframe \<Rightarrow> dataframe" where
  "df_loc keep df = map (\<lambda>(n, s). (n, series_loc keep s)) df"

text \<open>The first two statements of both callbacks after the load.\<close>

definition filter_by_date :: "dataframe \<Rightarrow> timestamp \<Rightarrow> timestamp \<Rightarrow> error + dataframe" where
  "filter_by_date df start_date end_date =
     (case getitem df ''Start date'' of
        Inl e \<Rightarrow> Inl e
      | Inr s \<Rightarrow>
          (case date_mask s start_date end_date of
             Inl e \<Rightarrow> Inl e
           | Inr keep \<Rightarrow> Inr (df_loc keep df)))"

subsection \<open>Aggregates\<close>

text \<open>Order on floats other than NaN.\<close>

fun fle :: "pyfloat \<Rightarrow> pyfloat \<Rightarrow> bool" where
  "fle (Fin a) (Fin b) = (a \<le> b)"
| "fle NInf _ = True"
| "fle _ PInf = True"
| "fle _ _ = False"

definition fmax :: "pyfloat \<Rightarrow> pyfloat \<Rightarrow> pyfloat" where
  "fmax a b = (if fle a b then b else a)"

definition fmin :: "pyfloat \<Rightarrow> pyfloat \<Rightarrow> pyfloat" where
  "fmin a b = (if fle a b then a else b)"

text \<open>
  The pandas reductions skip NaN (\<open>skipna=True\<close>). The sum puts 0.0 in the place of every
  NaN and hands the array to numpy's sum; the sum of no rows is 0.0. The mean divides that
  sum by the number of values other than NaN, and is NaN when there is none. Maximum and
  minimum of nothing are NaN.
\<close>

definition not_nan :: "pyfloat list \<Rightarrow> pyfloat list" where
  "not_nan ys = filter (\<lambda>v. v \<noteq> NaN) ys"

definition nansum :: "library \<Rightarrow> pyfloat list \<Rightarrow> pyfloat" where
  "nansum lib ys =
     (if ys = [] then Fin 0 else array_sum lib (map (\<lambda>v. if v = NaN then Fin 0 else v) ys))"

definition nanmean :: "library \<Rightarrow> pyfloat list \<Rightarrow> pyfloat" where
  "nanmean lib ys =
     (if not_nan ys = [] then NaN else true_divide lib (nansum lib ys) (length (not_nan ys)))"

definition nanmax :: "pyfloat list \<Rightarrow> pyfloat" where
  "nanmax ys = (case not_nan ys of [] \<Rightarrow> NaN | v # vs \<Rightarrow> foldl fmax v vs)"

definition nanmin :: "pyfloat list \<Rightarrow> pyfloat" where
  "nanmin ys = (case not_nan ys of [] \<Rightarrow> NaN | v # vs \<Rightarrow> foldl fmin v vs)"

definition strings_of :: "pyobj list \<Rightarrow> string list" where
  "strings_of xs = concat (map (\<lambda>x. case x of Str t \<Rightarrow> [t] | Missing \<Rightarrow> []) xs)"

text \<open>
  \<open>float(s.sum())\<close>. On an object column missing values count as 0 and strings are
  added with \<open>+\<close>: a number plus a string raises \<open>TypeError\<close>, strings alone are
  concatenated and the result handed to \<open>float\<close>. Timestamps have no sum.
\<close>

definition series_sum :: "library \<Rightarrow> series \<Rightarrow> error + pyfloat" where
  "series_sum lib s =
     (case s of
        Float64 ys \<Rightarrow> Inr (nansum lib ys)
      | Object xs \<Rightarrow>
          (if strings_of xs = [] then Inr (Fin 0)
           else if Missing \<in> set xs then Inl TypeError
           else (case float_of_str lib (concat (strings_of xs)) of
                   None \<Rightarrow> Inl ValueError
                 | Some v \<Rightarrow> Inr v))
      | Datetime64 _ \<Rightarrow> Inl TypeError)"

text \<open>
  The three statements \<open>float(s.mean())\<close>, \<open>float(s.max())\<close>, \<open>float(s.min())\<close>, in this
  order. On an object column that holds a string the mean already raises \<open>TypeError\<close>
  (pandas 2); the mean of timestamps is a timestamp, which \<open>float\<close> rejects.
\<close>

definition series_stats :: "library \<Rightarrow> series \<Rightarrow> error + pyfloat \<times> pyfloat \<times> pyfloat" where
  "series_stats lib s =
     (case s of
        Float64 ys \<Rightarrow> Inr (nanmean lib ys, nanmax ys, nanmin ys)
      | Object xs \<Rightarrow> (if strings_of xs = [] then Inr (NaN, NaN, NaN) else Inl TypeError)
      | Datetime64 _ \<Rightarrow> Inl TypeError)"

subsection \<open>The callbacks\<close>

definition colors :: "(string \<times> string) list" where
  "colors =
     [(''Biomass'', ''#8884d8''),
      (''Hydropower'', ''#82ca9d''),
      (''Wind offshore'', ''#8dd1e1''),
      (''Wind onshore'', ''#82b1ff''),
      (''Photovoltaics'', ''#ffc658''),
      (''Other renewable'', ''#a4de6c''),
      (''Nuclear'', ''#d88484''),
      (''Lignite'', ''#97746a''),
      (''Hard coal'', ''#666666''),
      (''Fossil gas'', ''#ff8a65''),
      (''Hydro pumped storage'', ''#ba68c8''),
      (''Other conventional'', ''#78909c'')]"

text \<open>A \<open>go.Scatter\<close> trace, as far as it depends on the data.\<close>

record scatter =
  trace_x :: series
  trace_y :: series
  trace_name :: string
  trace_fillcolor :: "string option"

fun map_err :: "('a \<Rightarrow> error + 'b) \<Rightarrow> 'a list \<Rightarrow> error + 'b list" where
  "map_err f [] = Inr []"
| "map_err f (x # xs) =
     (case f x of
        Inl e \<Rightarrow> Inl e
      | Inr y \<Rightarrow> (case map_err f xs of Inl e \<Rightarrow> Inl e | Inr ys \<Rightarrow> Inr (y # ys)))"

definition generation_trace :: "dataframe \<Rightarrow> string \<Rightarrow> error + scatter" where
  "generation_trace df_filtered source =
     (case getitem df_filtered ''Start date'' of
        Inl e \<Rightarrow> Inl e
      | Inr xs \<Rightarrow>
          (case getitem df_filtered source of
             Inl e \<Rightarrow> Inl e
           | Inr ys \<Rightarrow>
               (case map_of colors source of
                  None \<Rightarrow> Inl KeyError
                | Some c \<Rightarrow>
                    Inr \<lparr>trace_x = xs, trace_y = ys, trace_name = source,
                         trace_fillcolor = Some c\<rparr>)))"

text \<open>\<open>total_generation = float(df_filtered[source].sum())\<close>\<close>

definition generation_total :: "library \<Rightarrow> dataframe \<Rightarrow> string \<Rightarrow> error + string \<times> pyfloat" where
  "generation_total lib df_filtered source =
     (case getitem df_filtered source of
        Inl e \<Rightarrow> Inl e
      | Inr s \<Rightarrow> (case series_sum lib s of Inl e \<Rightarrow> Inl e | Inr v \<Rightarrow> Inr (source, v)))"

text \<open>
  \<open>update_generation_graph(selected_sources, start_date, end_date)\<close>: load, filter, one
  trace per selected source, then one total per selected source.
\<close>

definition update_generation_graph ::
  "library \<Rightarrow> world \<Rightarrow> string list \<Rightarrow> timestamp \<Rightarrow> timestamp
     \<Rightarrow> error + scatter list \<times> (string \<times> pyfloat) list" where
  "update_generation_graph lib w selected_sources start_date end_date =
     (case load_generation_data lib w of
        Inl e \<Rightarrow> Inl e
      | Inr df \<Rightarrow>
          (case filter_by_date df start_date end_date of
             Inl e \<Rightarrow> Inl e
           | Inr df_filtered \<Rightarrow>
               (case map_err (generation_trace df_filtered) selected_sources of
                  Inl e \<Rightarrow> Inl e
                | Inr fig \<Rightarrow>
                    (case map_err (generation_total lib df_filtered) selected_sources of
                       Inl e \<Rightarrow> Inl e
                     | Inr summary_stats \<Rightarrow> Inr (fig, summary_stats)))))"

definition price_trace :: "dataframe \<Rightarrow> string \<Rightarrow> error + scatter" where
  "price_trace df_filtered country =
     (case getitem df_filtered ''Start date'' of
        Inl e \<Rightarrow> Inl e
      | Inr xs \<Rightarrow>
          (case getitem df_filtered country of
             Inl e \<Rightarrow> Inl e
           | Inr ys \<Rightarrow>
               Inr \<lparr>trace_x = xs, trace_y = ys, trace_name = country,
                    trace_fillcolor = None\<rparr>))"

text \<open>\<open>avg_price\<close>, \<open>max_price\<close>, \<open>min_price\<close> of one selected country.\<close>

definition price_stats ::
  "library \<Rightarrow> dataframe \<Rightarrow> string \<Rightarrow> error + string \<times> pyfloat \<times> pyfloat \<times> pyfloat" where
  "price_stats lib df_filtered country =
     (case getitem df_filtered country of
        Inl e \<Rightarrow> Inl e
      | Inr s \<Rightarrow> (case series_stats lib s of Inl e \<Rightarrow> Inl e | Inr v \<Rightarrow> Inr (country, v)))"

definition update_price_graph ::
  "library \<Rightarrow> world \<Rightarrow> string list \<Rightarrow> timestamp \<Rightarrow> timestamp
     \<Rightarrow> error + scatter list \<times> (string \<times> pyfloat \<times> pyfloat \<times> pyfloat) list" where
  "update_price_graph lib w selected_countries start_date end_date =
     (case load_price_data lib w of
        Inl e \<Rightarrow> Inl e
      | Inr df \<Rightarrow>
          (case filter_by_date df start_date end_date of
             Inl e \<Rightarrow> Inl e
           | Inr df_filtered \<Rightarrow>
               (case map_err (price_trace df_filtered) selected_countries of
                  Inl e \<Rightarrow> Inl e
                | Inr fig \<Rightarrow>
                    (case map_err (price_stats lib df_filtered) selected_countries of
                       Inl e \<Rightarrow> Inl e
                     | Inr stats \<Rightarrow> Inr (fig, stats)))))"

subsection \<open>Notions used in the statements\<close>

text \<open>The rows of a column at a set of positions.\<close>

definition series_rows :: "nat set \<Rightarrow> series \<Rightarrow> series" where
  "series_rows I s =
     (case s of
        Object xs \<Rightarrow> Object (nths xs I)
      | Float64 ys \<Rightarrow> Float64 (nths ys I)
      | Datetime64 ts \<Rightarrow> Datetime64 (nths ts I))"

text \<open>
  The values \<open>v\<close> of the rows \<open>(t, v)\<close> whose timestamp \<open>t\<close> lies between the two bounds,
  both included.
\<close>

definition rows_between :: "timestamp list \<Rightarrow> timestamp \<Rightarrow> timestamp \<Rightarrow> 'a list \<Rightarrow> 'a list" where
  "rows_between ts start_date end_date vs =
     map snd (filter (\<lambda>(t, v). ts_le start_date t \<and> ts_le t end_date) (zip ts vs))"

text \<open>The values of a float column of a frame (empty for any other column).\<close>

definition column_floats :: "dataframe \<Rightarrow> string \<Rightarrow> pyfloat list" where
  "column_floats df c = (case getitem df c of Inr (Float64 ys) \<Rightarrow> ys | _ \<Rightarrow> [])"

text \<open>
  What the three steps of a loader's loop body make of one textual field, in their order:
  the marker \<open>-\<close> becomes the text \<open>0\<close>, then every comma is removed (generation) or
  replaced by a point (price), then \<open>float\<close> converts the text. That the loaders compute
  these functions field by field is proved below. A missing field becomes NaN.
\<close>

definition generation_field :: "library \<Rightarrow> string \<Rightarrow> pyfloat option" where
  "generation_field lib t =
     float_of_str lib (str_replace (CHR '','') [] (if t = ''-'' then ''0'' else t))"

definition price_field :: "library \<Rightarrow> string \<Rightarrow> pyfloat option" where
  "price_field lib t =
     float_of_str lib (str_replace (CHR '','') ''.'' (if t = ''-'' then ''0'' else t))"

definition cell_with :: "(string \<Rightarrow> pyfloat option) \<Rightarrow> pyobj \<Rightarrow> pyfloat option" where
  "cell_with f x = (case x of Str t \<Rightarrow> f t | Missing \<Rightarrow> Some NaN)"

text \<open>The frame of a loader after the date conversion and the header cleanup, before its loop.\<close>

definition prepared :: "timestamp list \<Rightarrow> dataframe \<Rightarrow> dataframe" where
  "prepared ts raw =
     map (\<lambda>(n, s). (clean_header n, s)) (set_columns ''Start date'' (\<lambda>_. Datetime64 ts) raw)"

subsection \<open>Example files and an example library\<close>

text \<open>
  The examples need definite functions in the four places of the library. The ones chosen
  here are small stand-ins, not descriptions of the real functions: they read and
  calculate without rounding, and know only the texts that the examples use.
\<close>

definition is_digit :: "char \<Rightarrow> bool" where
  "is_digit c = (c \<in> set ''0123456789'')"

definition digit_val :: "char \<Rightarrow> nat" where
  "digit_val c = of_char c - 48"

definition digits_val :: "string \<Rightarrow> nat" where
  "digits_val ds = foldl (\<lambda>n c. 10 * n + digit_val c) 0 ds"

text \<open>
  In place of \<open>pd.to_datetime\<close>: a date column of day numbers. The text \<open>5\<close> is day 5, a
  missing date is \<open>NaT\<close>, any other text is rejected.
\<close>

definition day_of :: "pyobj \<Rightarrow> timestamp option" where
  "day_of x =
     (case x of
        Str t \<Rightarrow> if t \<noteq> [] \<and> list_all is_digit t then Some (At (int (digits_val t))) else None
      | Missing \<Rightarrow> Some NaT)"

definition to_datetime_days :: "series \<Rightarrow> error + timestamp list" where
  "to_datetime_days s =
     (case s of
        Object xs \<Rightarrow>
          (case those (map day_of xs) of None \<Rightarrow> Inl ValueError | Some ts \<Rightarrow> Inr ts)
      | Float64 _ \<Rightarrow> Inl TypeError
      | Datetime64 ts \<Rightarrow> Inr ts)"

text \<open>
  In place of \<open>float\<close>: it reads the text \<open>inf\<close> and plain unsigned decimal numerals (digits,
  or digits, a point and digits), each as the number it writes, and rejects every other
  text.
\<close>

definition read_decimal :: "string \<Rightarrow> pyfloat option" where
  "read_decimal s =
     (let ip = takeWhile is_digit s; r = dropWhile is_digit s
      in if s = ''inf'' then Some PInf
         else if ip = [] then None
         else (case r of
                 [] \<Rightarrow> Some (Fin (of_nat (digits_val ip)))
               | c # fp \<Rightarrow>
                   if c = CHR ''.'' \<and> fp \<noteq> [] \<and> list_all is_digit fp
                   then Some (Fin (of_nat (digits_val (ip @ fp)) / 10 ^ length fp))
                   else None))"

text \<open>
  In place of the float arithmetic of the sum and of the mean: addition from left to right
  and division, both without rounding.
\<close>

fun exact_add :: "pyfloat \<Rightarrow> pyfloat \<Rightarrow> pyfloat" where
  "exact_add (Fin a) (Fin b) = Fin (a + b)"
| "exact_add NaN _ = NaN"
| "exact_add _ NaN = NaN"
| "exact_add PInf NInf = NaN"
| "exact_add NInf PInf = NaN"
| "exact_add PInf _ = PInf"
| "exact_add _ PInf = PInf"
| "exact_add NInf _ = NInf"
| "exact_add _ NInf = NInf"

definition exact_sum :: "pyfloat list \<Rightarrow> pyfloat" where
  "exact_sum ys = foldl exact_add (Fin 0) ys"

fun exact_divide :: "pyfloat \<Rightarrow> nat \<Rightarrow> pyfloat" where
  "exact_divide (Fin a) n = Fin (a / of_nat n)"
| "exact_divide v n = v"

definition example_library :: library where
  "example_library =
     \<lparr>to_datetime = to_datetime_days, float_of_str = read_decimal,
      array_sum = exact_sum, true_divide = exact_divide\<rparr>"

text \<open>
  Two files of three days each. The generation columns are textual (they hold grouped
  numbers or the marker \<open>-\<close>); in the price file the first market is textual and the second
  one was read as numbers by \<open>read_csv\<close>.
\<close>

definition three_days :: world where
  "three_days =
     \<lparr>generation_csv = Inr
        [(''Start date'', Object [Str ''1'', Str ''2'', Str ''3'']),
         (''End date'', Object [Str ''2'', Str ''3'', Str ''4'']),
         (''Biomass [MWh] Calculated resolutions'', Object [Str ''1,234'', Str ''-'', Str ''1.234'']),
         (''Wind onshore [MWh] Calculated resolutions'',
            Object [Str ''98,653.25'', Str ''100'', Str ''-''])],
      price_csv = Inr
        [(''Start date'', Object [Str ''1'', Str ''2'', Str ''3'']),
         (''End date'', Object [Str ''2'', Str ''3'', Str ''4'']),
         (''Germany/Luxembourg [EUR/MWh] Original resolutions'',
            Object [Str ''45,67'', Str ''-'', Str ''100,5'']),
         (''France [EUR/MWh] Original resolutions'', Float64 [Fin 10, Fin 20, Fin 30])]\<rparr>"

text \<open>Two files in which one field of a textual column is not a number.\<close>

definition bad_text :: world where
  "bad_text =
     \<lparr>generation_csv = Inr
        [(''Start date'', Object [Str ''1'', Str ''2'']),
         (''Biomass [MWh] Calculated resolutions'', Object [Str ''-'', Str ''abc''])],
      price_csv = Inr
        [(''Start date'', Object [Str ''1'', Str ''2'']),
         (''France [EUR/MWh] Original resolutions'', Object [Str ''45,67'', Str ''abc''])]\<rparr>"

section \<open>Properties\<close>

subsection \<open>Row selection\<close>

lemma loc_list_Nil [simp]: "loc_list [] xs = []" "loc_list ks [] = []"
  by (simp_all add: loc_list_def)

lemma loc_list_Cons [simp]:
  "loc_list (k # ks) (x # xs) = (if k then x # loc_list ks xs else loc_list ks xs)"
  by (simp add: loc_list_def)

lemma loc_list_nths:
  "length ks = length xs \<Longrightarrow> loc_list ks xs = nths xs {i. i < length ks \<and> ks ! i}"
proof (induction ks xs rule: list_induct2)
  case Nil
  then show ?case by simp
next
  case (Cons k ks x xs)
  have "{j. Suc j < Suc (length ks) \<and> (k # ks) ! Suc j} = {i. i < length ks \<and> ks ! i}"
    by simp
  with Cons show ?case
    by (simp add: nths_Cons)
qed

lemma loc_list_map_nths:
  assumes "length ts = length xs"
  shows "loc_list (map P ts) xs = nths xs {i. i < length ts \<and> P (ts ! i)}"
proof -
  have "{i. i < length (map P ts) \<and> map P ts ! i} = {i. i < length ts \<and> P (ts ! i)}"
    by auto
  with loc_list_nths [of "map P ts" xs] assms show ?thesis
    by simp
qed

lemma loc_list_map_self: "loc_list (map P ts) ts = filter P ts"
  by (induction ts) simp_all

lemma loc_list_map_zip:
  "loc_list (map P ts) xs = map snd (filter (\<lambda>(t, x). P t) (zip ts xs))"
proof (induction ts arbitrary: xs)
  case Nil
  then show ?case by simp
next
  case (Cons t ts)
  then show ?case by (cases xs) simp_all
qed

lemma loc_list_none: "\<forall>k \<in> set ks. \<not> k \<Longrightarrow> loc_list ks xs = []"
  by (auto simp: loc_list_def filter_empty_conv dest: set_zip_leftD)

lemma series_len_loc_none: "\<forall>k \<in> set ks. \<not> k \<Longrightarrow> series_len (series_loc ks s) = 0"
  by (cases s) (simp_all add: series_len_def series_loc_def loc_list_none)

lemma series_loc_rows:
  "series_len s = length ts \<Longrightarrow>
     series_loc (map P ts) s = series_rows {i. i < length ts \<and> P (ts ! i)} s"
  by (cases s) (simp_all add: series_len_def series_loc_def series_rows_def loc_list_map_nths)

lemma columns_named_df_loc:
  "columns_named c (df_loc ks df) = map (series_loc ks) (columns_named c df)"
  by (induction df) (auto simp: columns_named_def df_loc_def)

lemma map_fst_df_loc: "map fst (df_loc ks df) = map fst df"
  by (induction df) (auto simp: df_loc_def)

lemma getitem_df_loc:
  "getitem df c = Inr s \<Longrightarrow> getitem (df_loc ks df) c = Inr (series_loc ks s)"
  by (auto simp: getitem_def columns_named_df_loc split: list.splits)

lemma df_loc_nth: "i < length df \<Longrightarrow> snd (df_loc ks df ! i) = series_loc ks (snd (df ! i))"
  by (simp add: df_loc_def case_prod_beta)

lemma not_between_reversed: "b < a \<Longrightarrow> \<not> (ts_le (At a) t \<and> ts_le t (At b))"
  by (cases t) simp_all

text \<open>
  C5. When the table has one \<open>Start date\<close> column of timestamps, the date filter never
  fails. It keeps the column labels; the \<open>Start date\<close> column of the result consists of
  exactly the timestamps \<open>t\<close> with \<open>start_date \<le> t \<le> end_date\<close>, both bounds included,
  in their original order; every column as long as the date column is cut down to the
  same row positions, so that no row is added; and when the start bound lies after the end
  bound every column of the result is empty.
\<close>

theorem filter_by_date_inclusive_rows:
  assumes sd: "getitem df ''Start date'' = Inr (Datetime64 ts)"
  shows "\<exists>df'. filter_by_date df start_date end_date = Inr df'
           \<and> map fst df' = map fst df
           \<and> getitem df' ''Start date''
               = Inr (Datetime64 (filter (\<lambda>t. ts_le start_date t \<and> ts_le t end_date) ts))
           \<and> (\<forall>i < length df. series_len (snd (df ! i)) = length ts \<longrightarrow>
                 snd (df' ! i)
                   = series_rows
                       {j. j < length ts \<and> ts_le start_date (ts ! j) \<and> ts_le (ts ! j) end_date}
                       (snd (df ! i)))
           \<and> ((\<exists>a b. start_date = At a \<and> end_date = At b \<and> b < a) \<longrightarrow>
                 (\<forall>(n, s) \<in> set df'. series_len s = 0))"
proof -
  let ?P = "\<lambda>t. ts_le start_date t \<and> ts_le t end_date"
  let ?df' = "df_loc (map ?P ts) df"
  have run: "filter_by_date df start_date end_date = Inr ?df'"
    using sd by (simp add: filter_by_date_def date_mask_def)
  have labels: "map fst ?df' = map fst df"
    by (rule map_fst_df_loc)
  have start: "getitem ?df' ''Start date'' = Inr (Datetime64 (filter ?P ts))"
    using getitem_df_loc [OF sd, of "map ?P ts"] by (simp add: series_loc_def loc_list_map_self)
  have rows: "\<forall>i < length df. series_len (snd (df ! i)) = length ts \<longrightarrow>
      snd (?df' ! i) = series_rows {j. j < length ts \<and> ?P (ts ! j)} (snd (df ! i))"
    by (simp add: df_loc_nth series_loc_rows)
  have empty: "(\<exists>a b. start_date = At a \<and> end_date = At b \<and> b < a) \<longrightarrow>
      (\<forall>(n, s) \<in> set ?df'. series_len s = 0)"
  proof (intro impI)
    assume "\<exists>a b. start_date = At a \<and> end_date = At b \<and> b < a"
    then have "\<forall>k \<in> set (map ?P ts). \<not> k"
      using not_between_reversed by auto
    then show "\<forall>(n, s) \<in> set ?df'. series_len s = 0"
      by (auto simp: df_loc_def series_len_loc_none)
  qed
  from run labels start rows empty show ?thesis
    by blast
qed

text \<open>
  The filter on a table with one row per day, days 1 to 30 of the month (day 31 standing
  for the first day of the next month): the interval from day 5 to day 5 keeps exactly
  the row of day 5; the interval from day 31 back to day 1 keeps no row.
\<close>

theorem filter_by_date_inclusive_rows_witness:
  "getitem [(''Start date'', Datetime64 (map At [1..30])),
            (''Biomass'', Float64 (map (\<lambda>d. Fin (of_int d)) [1..30]))] ''Start date''
     = Inr (Datetime64 (map At [1..30]))
   \<and> filter_by_date [(''Start date'', Datetime64 (map At [1..30])),
                     (''Biomass'', Float64 (map (\<lambda>d. Fin (of_int d)) [1..30]))] (At 5) (At 5)
       = Inr [(''Start date'', Datetime64 [At 5]), (''Biomass'', Float64 [Fin 5])]
   \<and> filter_by_date [(''Start date'', Datetime64 (map At [1..30])),
                     (''Biomass'', Float64 (map (\<lambda>d. Fin (of_int d)) [1..30]))] (At 31) (At 1)
       = Inr [(''Start date'', Datetime64 []), (''Biomass'', Float64 [])]"
proof -
  let ?df = "[(''Start date'', Datetime64 (map At [1..30])),
              (''Biomass'', Float64 (map (\<lambda>d. Fin (of_int d)) [1..30]))]"
  have days: "[1..30] = [1, 2, 3, 4, 5, 6, 7, 8, 9, 10, 11, 12, 13, 14, 15, 16, 17, 18, 19, 20,
                         21, 22, 23, 24, 25, 26, 27, 28, 29, 30 :: int]"
    by code_simp
  have h: "getitem ?df ''Start date'' = Inr (Datetime64 (map At [1..30]))"
    by (simp add: getitem_def columns_named_def)
  have a: "filter_by_date ?df (At 5) (At 5)
             = Inr [(''Start date'', Datetime64 [At 5]), (''Biomass'', Float64 [Fin 5])]"
    unfolding days
    by (simp add: filter_by_date_def getitem_def columns_named_def date_mask_def df_loc_def
        series_loc_def)
  have b: "filter_by_date ?df (At 31) (At 1)
             = Inr [(''Start date'', Datetime64 []), (''Biomass'', Float64 [])]"
    unfolding days
    by (simp add: filter_by_date_def getitem_def columns_named_def date_mask_def df_loc_def
        series_loc_def)
  from filter_by_date_inclusive_rows [OF h, of "At 5" "At 5"]
    filter_by_date_inclusive_rows [OF h, of "At 31" "At 1"] h a b
  show ?thesis
    by blast
qed

subsection \<open>One step of a loader\<close>

lemma map_fst_set_columns [simp]: "map fst (set_columns c f df) = map fst df"
  by (induction df) (auto simp: set_columns_def)

lemma length_set_columns [simp]: "length (set_columns c f df) = length df"
  by (simp add: set_columns_def)

lemma columns_named_set_columns:
  "columns_named n (set_columns c f df)
     = (if n = c then map f (columns_named c df) else columns_named n df)"
  by (induction df) (auto simp: set_columns_def columns_named_def)

lemma set_columns_twice: "set_columns c (\<lambda>_. s) (set_columns c f df) = set_columns c (\<lambda>_. s) df"
  by (induction df) (auto simp: set_columns_def)

lemma columns_named_nth:
  "i < length df \<Longrightarrow> snd (df ! i) \<in> set (columns_named (fst (df ! i)) df)"
proof -
  assume "i < length df"
  then have "df ! i \<in> set df" by simp
  then show ?thesis
    by (force simp: columns_named_def)
qed

lemma columns_named_empty_iff: "columns_named c df = [] \<longleftrightarrow> c \<notin> fst ` set df"
  by (induction df) (auto simp: columns_named_def)

lemma those_map_None:
  "x \<in> set xs \<Longrightarrow> f x = None \<Longrightarrow> those (map f xs) = None"
  by (induction xs) (auto split: option.splits)

lemma generation_cells:
  "to_float lib \<circ>
     ((\<lambda>x. case x of Str t \<Rightarrow> Str (str_replace (CHR '','') [] t) | Missing \<Rightarrow> Missing) \<circ>
      (\<lambda>x. if x = Str ''-'' then Str ''0'' else x))
   = cell_with (generation_field lib)"
  by (rule ext)
    (auto simp: to_float_def cell_with_def generation_field_def split: pyobj.splits)

lemma price_cells:
  "to_float lib \<circ>
     ((\<lambda>x. case x of Str t \<Rightarrow> Str (str_replace (CHR '','') ''.'' t) | Missing \<Rightarrow> Missing) \<circ>
      (\<lambda>x. if x = Str ''-'' then Str ''0'' else x))
   = cell_with (price_field lib)"
  by (rule ext)
    (auto simp: to_float_def cell_with_def price_field_def split: pyobj.splits)

lemma generation_column_object:
  assumes "columns_named c df = [Object xs]"
  shows "generation_column lib c df
           = (case those (map (cell_with (generation_field lib)) xs) of
                None \<Rightarrow> Inl ValueError
              | Some ys \<Rightarrow> Inr (set_columns c (\<lambda>_. Float64 ys) df))"
  using assms
  by (simp add: generation_column_def columns_named_set_columns series_replace_def
      series_str_replace_def astype_float_def generation_cells set_columns_twice
      split: option.splits)

lemma generation_column_Inr:
  assumes "generation_column lib c df = Inr df'"
  shows "\<exists>xs ys. columns_named c df = [Object xs]
           \<and> those (map (cell_with (generation_field lib)) xs) = Some ys
           \<and> df' = set_columns c (\<lambda>_. Float64 ys) df"
proof -
  from assms obtain s where one: "columns_named c df = [s]"
    by (cases "columns_named c df"; cases "tl (columns_named c df)")
      (auto simp: generation_column_def columns_named_set_columns Let_def split: list.splits)
  from assms one obtain xs where obj: "s = Object xs"
    by (cases s)
      (auto simp: generation_column_def columns_named_set_columns series_replace_def
        series_str_replace_def)
  from assms one obj generation_column_object [of c df xs] show ?thesis
    by (auto split: option.splits)
qed

text \<open>
  The generation loop has no guard: a column that \<open>read_csv\<close> already typed as numbers has
  no \<open>.str\<close> accessor, and the loader fails on it.
\<close>

lemma generation_column_numeric:
  "columns_named c df = [Float64 ys] \<Longrightarrow> generation_column lib c df = Inl AttributeError"
  by (simp add: generation_column_def columns_named_set_columns series_replace_def
      series_str_replace_def)

lemma generation_column_fails:
  assumes "Object xs \<in> set (columns_named c df)"
    and "x \<in> set xs" and "cell_with (generation_field lib) x = None"
  shows "\<exists>e. generation_column lib c df = Inl e"
proof (cases "generation_column lib c df")
  case (Inl e)
  then show ?thesis by blast
next
  case (Inr df')
  from generation_column_Inr [OF Inr] obtain xs' ys where
    "columns_named c df = [Object xs']" and "those (map (cell_with (generation_field lib)) xs') = Some ys"
    by blast
  with assms(1) have "those (map (cell_with (generation_field lib)) xs) = Some ys"
    by simp
  with those_map_None [of x xs "cell_with (generation_field lib)"] assms(2,3) have False
    by simp
  then show ?thesis ..
qed

lemma for_columns_generation:
  assumes "for_columns (generation_column lib) cs df = Inr df'" and "distinct cs"
  shows "map fst df' = map fst df
       \<and> (\<forall>c \<in> set cs. \<exists>xs ys. columns_named c df = [Object xs]
              \<and> those (map (cell_with (generation_field lib)) xs) = Some ys
              \<and> columns_named c df' = [Float64 ys])
       \<and> (\<forall>n. n \<notin> set cs \<longrightarrow> columns_named n df' = columns_named n df)"
  using assms
proof (induction cs arbitrary: df)
  case Nil
  then show ?case by simp
next
  case (Cons c cs)
  from Cons.prems(1) obtain df1 where
    step: "generation_column lib c df = Inr df1" and rest: "for_columns (generation_column lib) cs df1 = Inr df'"
    by (auto split: sum.splits)
  from generation_column_Inr [OF step] obtain xs ys where
    col: "columns_named c df = [Object xs]" and
    conv: "those (map (cell_with (generation_field lib)) xs) = Some ys" and
    df1: "df1 = set_columns c (\<lambda>_. Float64 ys) df"
    by blast
  from Cons.prems(2) have c_new: "c \<notin> set cs" and dist: "distinct cs"
    by simp_all
  note IH = Cons.IH [OF rest dist]
  have other: "\<And>n. n \<noteq> c \<Longrightarrow> columns_named n df1 = columns_named n df"
    by (simp add: df1 columns_named_set_columns)
  have head: "columns_named c df' = [Float64 ys]"
    using IH c_new col by (simp add: df1 columns_named_set_columns)
  have labels: "map fst df' = map fst df"
    using IH by (simp add: df1)
  have tail: "\<forall>c' \<in> set cs. \<exists>xs ys. columns_named c' df = [Object xs]
              \<and> those (map (cell_with (generation_field lib)) xs) = Some ys
              \<and> columns_named c' df' = [Float64 ys]"
  proof
    fix c' assume c': "c' \<in> set cs"
    with c_new have "c' \<noteq> c" by blast
    with IH c' other show "\<exists>xs ys. columns_named c' df = [Object xs]
              \<and> those (map (cell_with (generation_field lib)) xs) = Some ys
              \<and> columns_named c' df' = [Float64 ys]"
      by metis
  qed
  have frame: "\<forall>n. n \<notin> set (c # cs) \<longrightarrow> columns_named n df' = columns_named n df"
    using IH other by simp
  from labels head col conv tail frame show ?case
    by auto
qed

subsection \<open>The loaders as a whole\<close>

lemma those_list_all2:
  "those (map f xs) = Some ys \<longleftrightarrow> list_all2 (\<lambda>x y. f x = Some y) xs ys"
proof (induction xs arbitrary: ys)
  case Nil
  then show ?case by auto
next
  case (Cons x xs)
  then show ?case
    by (cases ys) (auto split: option.splits)
qed

lemma distinct_numeric_columns: "distinct (numeric_columns df)"
  by (simp add: numeric_columns_def)

lemma set_numeric_columns:
  "set (numeric_columns df) = {n \<in> fst ` set df. n \<noteq> ''Start date'' \<and> n \<noteq> ''End date''}"
  by (auto simp: numeric_columns_def)

lemma clean_header_Start_date: "clean_header ''Start date'' = ''Start date''"
  by (simp add: clean_header_def)

lemma length_prepared [simp]: "length (prepared ts raw) = length raw"
  by (simp add: prepared_def)

lemma map_fst_prepared: "map fst (prepared ts raw) = map (clean_header \<circ> fst) raw"
  by (induction raw) (auto simp: prepared_def set_columns_def)

lemma prepared_nth:
  assumes "i < length raw" and "raw ! i = (h, s)"
  shows "prepared ts raw ! i
           = (clean_header h, if h = ''Start date'' then Datetime64 ts else s)"
  using assms by (simp add: prepared_def set_columns_def)

lemma load_generation_data_Inr:
  assumes "load_generation_data lib w = Inr df"
  shows "\<exists>raw s ts. generation_csv w = Inr raw \<and> map_of raw ''Start date'' = Some s
           \<and> to_datetime lib s = Inr ts
           \<and> for_columns (generation_column lib) (numeric_columns (prepared ts raw)) (prepared ts raw)
               = Inr df"
  using assms
  by (auto simp: load_generation_data_def prepared_def Let_def split: sum.splits option.splits)

lemma load_price_data_Inr:
  assumes "load_price_data lib w = Inr df"
  shows "\<exists>raw s ts. price_csv w = Inr raw \<and> map_of raw ''Start date'' = Some s
           \<and> to_datetime lib s = Inr ts
           \<and> for_columns (price_column lib) (numeric_columns (prepared ts raw)) (prepared ts raw)
               = Inr df"
  using assms
  by (auto simp: load_price_data_def prepared_def Let_def split: sum.splits option.splits)

lemma generation_loaded_float:
  assumes load: "load_generation_data lib w = Inr df"
    and c: "c \<in> fst ` set df" "c \<noteq> ''Start date''" "c \<noteq> ''End date''"
  shows "\<exists>ys. getitem df c = Inr (Float64 ys)"
proof -
  from load_generation_data_Inr [OF load] obtain raw ts where
    loop: "for_columns (generation_column lib) (numeric_columns (prepared ts raw)) (prepared ts raw) = Inr df"
    by blast
  note L = for_columns_generation [OF loop distinct_numeric_columns]
  from L have "fst ` set df = fst ` set (prepared ts raw)"
    by (metis set_map)
  with c have "c \<in> set (numeric_columns (prepared ts raw))"
    by (simp add: set_numeric_columns)
  with L obtain ys where "columns_named c df = [Float64 ys]"
    by blast
  then show ?thesis
    by (simp add: getitem_def)
qed

lemma generation_loaded_cells:
  assumes raw: "generation_csv w = Inr raw"
    and load: "load_generation_data lib w = Inr df"
    and i: "i < length raw" "raw ! i = (h, Object xs)"
    and cat: "clean_header h \<noteq> ''Start date''" "clean_header h \<noteq> ''End date''"
  shows "\<exists>ys. df ! i = (clean_header h, Float64 ys)
           \<and> list_all2 (\<lambda>x y. cell_with (generation_field lib) x = Some y) xs ys"
proof -
  let ?c = "clean_header h"
  from load_generation_data_Inr [OF load] raw obtain ts where
    loop: "for_columns (generation_column lib) (numeric_columns (prepared ts raw)) (prepared ts raw) = Inr df"
    by auto
  let ?df2 = "prepared ts raw"
  note L = for_columns_generation [OF loop distinct_numeric_columns]
  from cat have h: "h \<noteq> ''Start date''"
    using clean_header_Start_date by auto
  with i have at_i: "?df2 ! i = (?c, Object xs)"
    by (simp add: prepared_nth)
  from i have len: "i < length ?df2"
    by simp
  from nth_mem [OF len] at_i have "?c \<in> fst ` set ?df2"
    by force
  with cat have "?c \<in> set (numeric_columns ?df2)"
    by (simp add: set_numeric_columns)
  with L obtain xs' ys where
    one: "columns_named ?c ?df2 = [Object xs']" and
    conv: "those (map (cell_with (generation_field lib)) xs') = Some ys" and
    res: "columns_named ?c df = [Float64 ys]"
    by blast
  from columns_named_nth [OF len] at_i one have "xs' = xs"
    by simp
  from L have labels: "map fst df = map fst ?df2"
    by blast
  then have len': "i < length df"
    using len by (metis length_map)
  from labels len at_i have lab: "fst (df ! i) = ?c"
    by (metis fst_conv len' nth_map)
  from columns_named_nth [OF len'] lab res have "snd (df ! i) = Float64 ys"
    by simp
  with lab have "df ! i = (?c, Float64 ys)"
    by (metis prod.collapse)
  with conv \<open>xs' = xs\<close> show ?thesis
    by (auto simp: those_list_all2)
qed

lemma iloc0_replace [simp]:
  "iloc0_is_str (series_replace a b s) = iloc0_is_str s"
  by (cases s) (auto simp: iloc0_is_str_def series_replace_def split: list.splits)

lemma series_len_replace [simp]: "series_len (series_replace a b s) = series_len s"
  by (cases s) (auto simp: series_len_def series_replace_def)

lemma price_column_object:
  assumes col: "columns_named c df = [Object xs]" and first: "xs = x # xs'" "x \<noteq> Missing"
  shows "price_column lib c df
           = (case those (map (cell_with (price_field lib)) xs) of
                None \<Rightarrow> Inl ValueError
              | Some ys \<Rightarrow> Inr (set_columns c (\<lambda>_. Float64 ys) df))"
proof -
  have "iloc0_is_str (series_replace ''-'' ''0'' (Object xs)) = Some True"
    using first by (simp add: iloc0_is_str_def series_replace_def)
  with col show ?thesis
    by (simp add: price_column_def columns_named_set_columns series_str_replace_def
        astype_float_def price_cells set_columns_twice series_replace_def
        split: option.splits)
qed

lemma price_column_text:
  assumes "columns_named c df = [Object (Str t # xs)]"
  shows "price_column lib c df
           = (case those (map (cell_with (price_field lib)) (Str t # xs)) of
                None \<Rightarrow> Inl ValueError
              | Some ys \<Rightarrow> Inr (set_columns c (\<lambda>_. Float64 ys) df))"
  using price_column_object [OF assms, of "Str t" xs] by simp

lemma price_column_frame:
  assumes "price_column lib c df = Inr df'"
  shows "map fst df' = map fst df \<and> (\<forall>n. n \<noteq> c \<longrightarrow> columns_named n df' = columns_named n df)"
  using assms
  by (auto simp: price_column_def Let_def columns_named_set_columns
      split: list.splits option.splits bool.splits sum.splits if_splits)

lemma generation_column_frame:
  assumes "generation_column lib c df = Inr df'"
  shows "map fst df' = map fst df \<and> (\<forall>n. n \<noteq> c \<longrightarrow> columns_named n df' = columns_named n df)"
  using generation_column_Inr [OF assms]
  by (auto simp: columns_named_set_columns)

lemma price_column_fails:
  assumes "columns_named c df = [Object (Str t # xs)]"
    and "x \<in> set (Str t # xs)" and "cell_with (price_field lib) x = None"
  shows "price_column lib c df = Inl ValueError"
  using those_map_None [of x "Str t # xs" "cell_with (price_field lib)"] assms
  by (simp add: price_column_text del: those.simps list.map)

lemma for_columns_fails:
  assumes frame: "\<And>c df df'. body c df = Inr df' \<Longrightarrow>
                    (\<forall>n. n \<noteq> c \<longrightarrow> columns_named n df' = columns_named n df)"
    and bad: "\<And>df. columns_named c df = col \<Longrightarrow> \<exists>e. body c df = Inl e"
    and c: "c \<in> set cs" and col: "columns_named c df = col"
  shows "\<exists>e. for_columns body cs df = Inl e"
  using c col
proof (induction cs arbitrary: df)
  case Nil
  then show ?case by simp
next
  case (Cons c' cs)
  show ?case
  proof (cases "body c' df")
    case (Inl e)
    then show ?thesis by simp
  next
    case (Inr df1)
    with bad [OF Cons.prems(2)] have neq: "c' \<noteq> c"
      by auto
    with Cons.prems(1) have "c \<in> set cs"
      by simp
    moreover from frame [OF Inr] neq Cons.prems(2) have "columns_named c df1 = col"
      by simp
    ultimately have "\<exists>e. for_columns body cs df1 = Inl e"
      by (rule Cons.IH)
    with Inr show ?thesis
      by simp
  qed
qed

lemma columns_named_prepared:
  "columns_named c (prepared ts raw)
     = map (\<lambda>(h, s). if h = ''Start date'' then Datetime64 ts else s)
         (filter (\<lambda>(h, s). clean_header h = c) raw)"
  by (induction raw) (auto simp: prepared_def set_columns_def columns_named_def case_prod_beta)

lemma for_columns_labels:
  assumes frame: "\<And>c df df'. body c df = Inr df' \<Longrightarrow> map fst df' = map fst df"
    and run: "for_columns body cs df = Inr df'"
  shows "map fst df' = map fst df"
  using run
proof (induction cs arbitrary: df)
  case Nil
  then show ?case by simp
next
  case (Cons c cs)
  from Cons.prems obtain df1 where
    step: "body c df = Inr df1" and rest: "for_columns body cs df1 = Inr df'"
    by (auto split: sum.splits)
  from Cons.IH [OF rest] frame [OF step] show ?case
    by simp
qed

lemma for_columns_generation_error:
  assumes "\<forall>c \<in> set cs. \<exists>xs. columns_named c df = [Object xs]"
    and "distinct cs" and "for_columns (generation_column lib) cs df = Inl e"
  shows "e = ValueError"
  using assms
proof (induction cs arbitrary: df)
  case Nil
  then show ?case by simp
next
  case (Cons c cs)
  from Cons.prems(1) obtain xs where col: "columns_named c df = [Object xs]"
    by auto
  show ?case
  proof (cases "generation_column lib c df")
    case (Inl e')
    with generation_column_object [OF col] Cons.prems(3) show ?thesis
      by (auto split: option.splits)
  next
    case (Inr df1)
    from generation_column_frame [OF Inr] Cons.prems(1,2)
    have "\<forall>c' \<in> set cs. \<exists>xs. columns_named c' df1 = [Object xs]"
      by auto
    moreover from Cons.prems(2) have "distinct cs"
      by simp
    moreover from Cons.prems(3) Inr have "for_columns (generation_column lib) cs df1 = Inl e"
      by simp
    ultimately show ?thesis
      by (rule Cons.IH)
  qed
qed

lemma price_column_error:
  assumes col: "columns_named c df = [s]" and rows: "series_len s \<noteq> 0"
    and err: "price_column lib c df = Inl e"
  shows "e = ValueError"
proof (cases s)
  case (Object xs)
  with rows obtain x xs' where xs: "xs = x # xs'"
    by (cases xs) (auto simp: series_len_def)
  show ?thesis
  proof (cases x)
    case (Str t)
    with price_column_text [of c df t xs'] col Object xs err show ?thesis
      by (auto split: option.splits)
  next
    case Missing
    with col Object xs err show ?thesis
      by (simp add: price_column_def columns_named_set_columns series_replace_def
          iloc0_is_str_def)
  qed
next
  case (Float64 ys)
  with col rows err show ?thesis
    by (cases ys)
      (simp_all add: price_column_def columns_named_set_columns series_replace_def
        iloc0_is_str_def series_len_def)
next
  case (Datetime64 ts)
  with col rows err show ?thesis
    by (cases ts)
      (simp_all add: price_column_def columns_named_set_columns series_replace_def
        iloc0_is_str_def series_len_def)
qed

lemma for_columns_price_error:
  assumes "\<forall>c \<in> set cs. \<exists>s. columns_named c df = [s] \<and> series_len s \<noteq> 0"
    and "distinct cs" and "for_columns (price_column lib) cs df = Inl e"
  shows "e = ValueError"
  using assms
proof (induction cs arbitrary: df)
  case Nil
  then show ?case by simp
next
  case (Cons c cs)
  from Cons.prems(1) obtain s where col: "columns_named c df = [s]" "series_len s \<noteq> 0"
    by auto
  show ?case
  proof (cases "price_column lib c df")
    case (Inl e')
    with price_column_error [OF col] Cons.prems(3) show ?thesis
      by simp
  next
    case (Inr df1)
    from price_column_frame [OF Inr] Cons.prems(1,2)
    have "\<forall>c' \<in> set cs. \<exists>s. columns_named c' df1 = [s] \<and> series_len s \<noteq> 0"
      by auto
    moreover from Cons.prems(2) have "distinct cs"
      by simp
    moreover from Cons.prems(3) Inr have "for_columns (price_column lib) cs df1 = Inl e"
      by simp
    ultimately show ?thesis
      by (rule Cons.IH)
  qed
qed

lemma generation_load_fails:
  assumes raw: "generation_csv w = Inr raw"
    and col: "(h, Object xs) \<in> set raw"
    and cat: "clean_header h \<noteq> ''Start date''" "clean_header h \<noteq> ''End date''"
    and bad: "Str t \<in> set xs" "generation_field lib t = None"
  shows "\<exists>e. load_generation_data lib w = Inl e"
proof (cases "load_generation_data lib w")
  case (Inl e)
  then show ?thesis by blast
next
  case (Inr df)
  let ?c = "clean_header h"
  from load_generation_data_Inr [OF Inr] raw obtain ts where
    loop: "for_columns (generation_column lib) (numeric_columns (prepared ts raw)) (prepared ts raw) = Inr df"
    by auto
  from cat have h: "h \<noteq> ''Start date''"
    using clean_header_Start_date by auto
  with col have mem: "Object xs \<in> set (columns_named ?c (prepared ts raw))"
    by (force simp: columns_named_prepared)
  then have "?c \<in> fst ` set (prepared ts raw)"
    using columns_named_empty_iff [of ?c "prepared ts raw"] by auto
  with cat have inloop: "?c \<in> set (numeric_columns (prepared ts raw))"
    by (simp add: set_numeric_columns)
  from bad have cell: "cell_with (generation_field lib) (Str t) = None"
    by (simp add: cell_with_def)
  have "\<exists>e. for_columns (generation_column lib) (numeric_columns (prepared ts raw)) (prepared ts raw) = Inl e"
  proof (rule for_columns_fails [where c = ?c and col = "columns_named ?c (prepared ts raw)"])
    show "\<And>c df df'. generation_column lib c df = Inr df' \<Longrightarrow>
            \<forall>n. n \<noteq> c \<longrightarrow> columns_named n df' = columns_named n df"
      using generation_column_frame by blast
    show "\<And>df. columns_named ?c df = columns_named ?c (prepared ts raw) \<Longrightarrow>
            \<exists>e. generation_column lib ?c df = Inl e"
      using generation_column_fails [OF _ bad(1) cell] mem by metis
    show "?c \<in> set (numeric_columns (prepared ts raw))"
      by (rule inloop)
    show "columns_named ?c (prepared ts raw) = columns_named ?c (prepared ts raw)" ..
  qed
  with loop show ?thesis
    by simp
qed

lemma price_load_fails:
  assumes raw: "price_csv w = Inr raw"
    and col: "filter (\<lambda>(h', s). clean_header h' = clean_header h) raw = [(h, Object (Str t0 # xs))]"
    and cat: "clean_header h \<noteq> ''Start date''" "clean_header h \<noteq> ''End date''"
    and bad: "Str t \<in> set (Str t0 # xs)" "price_field lib t = None"
  shows "\<exists>e. load_price_data lib w = Inl e"
proof (cases "load_price_data lib w")
  case (Inl e)
  then show ?thesis by blast
next
  case (Inr df)
  let ?c = "clean_header h"
  from load_price_data_Inr [OF Inr] raw obtain ts where
    loop: "for_columns (price_column lib) (numeric_columns (prepared ts raw)) (prepared ts raw) = Inr df"
    by auto
  from cat have h: "h \<noteq> ''Start date''"
    using clean_header_Start_date by auto
  with col have one: "columns_named ?c (prepared ts raw) = [Object (Str t0 # xs)]"
    by (simp add: columns_named_prepared)
  then have "?c \<in> fst ` set (prepared ts raw)"
    using columns_named_empty_iff [of ?c "prepared ts raw"] by auto
  with cat have inloop: "?c \<in> set (numeric_columns (prepared ts raw))"
    by (simp add: set_numeric_columns)
  from bad have cell: "cell_with (price_field lib) (Str t) = None"
    by (simp add: cell_with_def)
  have "\<exists>e. for_columns (price_column lib) (numeric_columns (prepared ts raw)) (prepared ts raw) = Inl e"
  proof (rule for_columns_fails [where c = ?c and col = "[Object (Str t0 # xs)]"])
    show "\<And>c df df'. price_column lib c df = Inr df' \<Longrightarrow>
            \<forall>n. n \<noteq> c \<longrightarrow> columns_named n df' = columns_named n df"
      using price_column_frame by blast
    show "\<And>df. columns_named ?c df = [Object (Str t0 # xs)] \<Longrightarrow>
            \<exists>e. price_column lib ?c df = Inl e"
      using price_column_fails [OF _ bad(1) cell] by blast
    show "?c \<in> set (numeric_columns (prepared ts raw))"
      by (rule inloop)
    show "columns_named ?c (prepared ts raw) = [Object (Str t0 # xs)]"
      by (rule one)
  qed
  with loop show ?thesis
    by simp
qed

lemma load_generation_data_eq:
  assumes "generation_csv w = Inr raw" "map_of raw ''Start date'' = Some s" "to_datetime lib s = Inr ts"
  shows "load_generation_data lib w
           = for_columns (generation_column lib) (numeric_columns (prepared ts raw)) (prepared ts raw)"
  using assms by (simp add: load_generation_data_def prepared_def Let_def)

lemma load_price_data_eq:
  assumes "price_csv w = Inr raw" "map_of raw ''Start date'' = Some s" "to_datetime lib s = Inr ts"
  shows "load_price_data lib w
           = for_columns (price_column lib) (numeric_columns (prepared ts raw)) (prepared ts raw)"
  using assms by (simp add: load_price_data_def prepared_def Let_def)

lemma fst_set_prepared: "fst ` set (prepared ts raw) = clean_header ` fst ` set raw"
  using arg_cong [OF map_fst_prepared [of ts raw], of set] by (simp add: image_comp)

lemma category_column_prepared:
  assumes "filter (\<lambda>(h', s). clean_header h' = c) raw = [(h, s)]" and "c \<noteq> ''Start date''"
  shows "columns_named c (prepared ts raw) = [s]"
proof -
  from assms(1) have "(h, s) \<in> set (filter (\<lambda>(h', s). clean_header h' = c) raw)"
    by simp
  then have "clean_header h = c"
    by simp
  with assms(2) have "h \<noteq> ''Start date''"
    using clean_header_Start_date by auto
  with assms(1) show ?thesis
    by (simp add: columns_named_prepared)
qed

lemma generation_load_error_kind:
  assumes raw: "generation_csv w = Inr raw" "map_of raw ''Start date'' = Some s"
      "to_datetime lib s = Inr ts"
    and cols: "\<forall>c \<in> clean_header ` fst ` set raw. c \<noteq> ''Start date'' \<and> c \<noteq> ''End date'' \<longrightarrow>
        (\<exists>h xs. filter (\<lambda>(h', s). clean_header h' = c) raw = [(h, Object xs)])"
    and err: "load_generation_data lib w = Inl e"
  shows "e = ValueError"
proof -
  let ?df = "prepared ts raw"
  have "\<forall>c \<in> set (numeric_columns ?df). \<exists>xs. columns_named c ?df = [Object xs]"
  proof
    fix c assume "c \<in> set (numeric_columns ?df)"
    then have c: "c \<in> clean_header ` fst ` set raw" "c \<noteq> ''Start date''" "c \<noteq> ''End date''"
      by (auto simp: set_numeric_columns fst_set_prepared)
    with cols obtain h xs where "filter (\<lambda>(h', s). clean_header h' = c) raw = [(h, Object xs)]"
      by blast
    from category_column_prepared [OF this c(2)]
    show "\<exists>xs. columns_named c ?df = [Object xs]"
      by blast
  qed
  moreover from err have "for_columns (generation_column lib) (numeric_columns ?df) ?df = Inl e"
    using load_generation_data_eq [of w raw s lib ts] raw by simp
  ultimately show ?thesis
    using for_columns_generation_error distinct_numeric_columns by blast
qed

lemma price_load_error_kind:
  assumes raw: "price_csv w = Inr raw" "map_of raw ''Start date'' = Some s"
      "to_datetime lib s = Inr ts"
    and cols: "\<forall>c \<in> clean_header ` fst ` set raw. c \<noteq> ''Start date'' \<and> c \<noteq> ''End date'' \<longrightarrow>
        (\<exists>h s. filter (\<lambda>(h', s). clean_header h' = c) raw = [(h, s)] \<and> series_len s \<noteq> 0)"
    and err: "load_price_data lib w = Inl e"
  shows "e = ValueError"
proof -
  let ?df = "prepared ts raw"
  have "\<forall>c \<in> set (numeric_columns ?df). \<exists>s. columns_named c ?df = [s] \<and> series_len s \<noteq> 0"
  proof
    fix c assume "c \<in> set (numeric_columns ?df)"
    then have c: "c \<in> clean_header ` fst ` set raw" "c \<noteq> ''Start date''" "c \<noteq> ''End date''"
      by (auto simp: set_numeric_columns fst_set_prepared)
    with cols obtain h s where
      "filter (\<lambda>(h', s). clean_header h' = c) raw = [(h, s)]" "series_len s \<noteq> 0"
      by blast
    with category_column_prepared [OF this(1) c(2)]
    show "\<exists>s. columns_named c ?df = [s] \<and> series_len s \<noteq> 0"
      by blast
  qed
  moreover from err have "for_columns (price_column lib) (numeric_columns ?df) ?df = Inl e"
    using load_price_data_eq [of w raw s lib ts] raw by simp
  ultimately show ?thesis
    using for_columns_price_error distinct_numeric_columns by blast
qed

subsection \<open>Splitting a header\<close>

lemma split_acc_space_bracket:
  "CHR ''['' \<notin> set p \<Longrightarrow> hd (split_acc '' ['' cur (p @ '' ['' @ rest)) = rev cur @ p"
proof (induction p arbitrary: cur)
  case Nil
  then show ?case by simp
next
  case (Cons c p)
  from Cons.prems have c: "c \<noteq> CHR ''[''" and p: "CHR ''['' \<notin> set p"
    by auto
  have "\<not> prefix '' ['' (c # p @ '' ['' @ rest)"
    using c p by (cases p) auto
  with Cons.IH [OF p, of "c # cur"] show ?case
    by simp
qed

lemma clean_header_space_bracket:
  assumes "CHR ''['' \<notin> set p"
  shows "clean_header (p @ '' ['' @ rest) = p"
  using split_acc_space_bracket [OF assms, of "[]" rest]
  by (simp add: clean_header_def py_split_def)

lemma load_generation_data_labels:
  assumes "load_generation_data lib w = Inr df" "generation_csv w = Inr raw"
  shows "map fst df = map (clean_header \<circ> fst) raw"
proof -
  from load_generation_data_Inr [OF assms(1)] assms(2) obtain ts where
    "for_columns (generation_column lib) (numeric_columns (prepared ts raw)) (prepared ts raw) = Inr df"
    by auto
  from for_columns_labels [of "generation_column lib", OF _ this] generation_column_frame
  show ?thesis
    by (simp add: map_fst_prepared)
qed

lemma load_price_data_labels:
  assumes "load_price_data lib w = Inr df" "price_csv w = Inr raw"
  shows "map fst df = map (clean_header \<circ> fst) raw"
proof -
  from load_price_data_Inr [OF assms(1)] assms(2) obtain ts where
    "for_columns (price_column lib) (numeric_columns (prepared ts raw)) (prepared ts raw) = Inr df"
    by auto
  from for_columns_labels [of "price_column lib", OF _ this] price_column_frame
  show ?thesis
    by (simp add: map_fst_prepared)
qed

subsection \<open>The callbacks\<close>

lemma map_err_Inr: "\<forall>x \<in> set xs. f x = Inr (g x) \<Longrightarrow> map_err f xs = Inr (map g xs)"
  by (induction xs) simp_all

lemma map_err_total: "\<forall>x \<in> set xs. \<exists>y. f x = Inr y \<Longrightarrow> \<exists>ys. map_err f xs = Inr ys"
  by (induction xs) auto

lemma getitem_mem: "getitem df c = Inr s \<Longrightarrow> (c, s) \<in> set df"
proof -
  assume "getitem df c = Inr s"
  then have "columns_named c df = [s]"
    by (auto simp: getitem_def split: list.splits)
  then have "s \<in> set (columns_named c df)"
    by simp
  then show ?thesis
    by (auto simp: columns_named_def)
qed

lemma colors_not_dates:
  "c \<in> fst ` set colors \<Longrightarrow> c \<noteq> ''Start date'' \<and> c \<noteq> ''End date''"
  by (auto simp: colors_def)

lemma colors_lookup: "c \<in> fst ` set colors \<Longrightarrow> \<exists>col. map_of colors c = Some col"
  by (metis domIff dom_map_of_conv_image_fst not_Some_eq)

lemma filter_by_date_Inr:
  assumes "filter_by_date df start_date end_date = Inr df_filtered"
  shows "\<exists>ts. getitem df ''Start date'' = Inr (Datetime64 ts)
           \<and> df_filtered = df_loc (map (\<lambda>t. ts_le start_date t \<and> ts_le t end_date) ts) df"
  using assms
  by (auto simp: filter_by_date_def date_mask_def split: sum.splits series.splits)

lemma series_len_0:
  "series_len s = 0 \<longleftrightarrow> s = Object [] \<or> s = Float64 [] \<or> s = Datetime64 []"
  by (cases s) (auto simp: series_len_def)

lemma nan_empty [simp]:
  "nansum lib [] = Fin 0" "nanmean lib [] = NaN" "nanmax [] = NaN" "nanmin [] = NaN"
  by (simp_all add: nansum_def nanmean_def nanmax_def nanmin_def not_nan_def)

text \<open>
  C10. When the generation file has loaded, the date filter has produced a table without
  rows, and every selected source is a key of \<open>colors\<close> and a column of the table, the
  generation callback raises no error: it returns one (empty) trace and the total 0.0 for
  every selected source, in the order of the selection.
\<close>

theorem generation_summary_zero_rows:
  assumes load: "load_generation_data lib w = Inr df"
    and filt: "filter_by_date df start_date end_date = Inr df_filtered"
    and zero: "\<forall>(n, s) \<in> set df_filtered. series_len s = 0"
    and sel: "set selected_sources \<subseteq> fst ` set colors" "set selected_sources \<subseteq> fst ` set df"
  shows "update_generation_graph lib w selected_sources start_date end_date
           = Inr (map (\<lambda>c. \<lparr>trace_x = Datetime64 [], trace_y = Float64 [], trace_name = c,
                             trace_fillcolor = map_of colors c\<rparr>) selected_sources,
                  map (\<lambda>c. (c, Fin 0)) selected_sources)"
proof -
  from filter_by_date_Inr [OF filt] obtain ts keep where
    sd: "getitem df ''Start date'' = Inr (Datetime64 ts)" and
    dff: "df_filtered = df_loc keep df"
    by blast
  have x: "getitem df_filtered ''Start date'' = Inr (Datetime64 [])"
  proof -
    from getitem_df_loc [OF sd, of keep]
    have g: "getitem df_filtered ''Start date'' = Inr (Datetime64 (loc_list keep ts))"
      by (simp add: dff series_loc_def)
    from getitem_mem [OF g] zero show ?thesis
      using g by (auto simp: series_len_def)
  qed
  have y: "getitem df_filtered c = Inr (Float64 [])" if "c \<in> set selected_sources" for c
  proof -
    from that sel colors_not_dates [of c] generation_loaded_float [OF load, of c]
    obtain ys where "getitem df c = Inr (Float64 ys)"
      by blast
    from getitem_df_loc [OF this, of keep]
    have g: "getitem df_filtered c = Inr (Float64 (loc_list keep ys))"
      by (simp add: dff series_loc_def)
    from getitem_mem [OF g] zero show ?thesis
      using g by (auto simp: series_len_def)
  qed
  have traces: "map_err (generation_trace df_filtered) selected_sources
      = Inr (map (\<lambda>c. \<lparr>trace_x = Datetime64 [], trace_y = Float64 [], trace_name = c,
                        trace_fillcolor = map_of colors c\<rparr>) selected_sources)"
  proof (rule map_err_Inr, rule ballI)
    fix c assume c: "c \<in> set selected_sources"
    with sel colors_lookup [of c] obtain col where "map_of colors c = Some col"
      by blast
    with x y [OF c]
    show "generation_trace df_filtered c
        = Inr \<lparr>trace_x = Datetime64 [], trace_y = Float64 [], trace_name = c,
               trace_fillcolor = map_of colors c\<rparr>"
      by (simp add: generation_trace_def)
  qed
  have totals: "map_err (generation_total lib df_filtered) selected_sources
      = Inr (map (\<lambda>c. (c, Fin 0)) selected_sources)"
  proof (rule map_err_Inr, rule ballI)
    fix c assume "c \<in> set selected_sources"
    from y [OF this] show "generation_total lib df_filtered c = Inr (c, Fin 0)"
      by (simp add: generation_total_def series_sum_def)
  qed
  from load filt traces totals show ?thesis
    by (simp add: update_generation_graph_def)
qed

text \<open>
  C1 (as amended). When the price file has loaded, the date filter has produced a table
  without rows, and every selected country is the label of exactly one column of the
  table, not a column of timestamps, the price callback raises no error: it reports NaN
  for the mean, the maximum and the minimum of every selected country. The code has no
  empty-range error.
\<close>

theorem price_statistics_zero_rows:
  assumes load: "load_price_data lib w = Inr df"
    and filt: "filter_by_date df start_date end_date = Inr df_filtered"
    and zero: "\<forall>(n, s) \<in> set df_filtered. series_len s = 0"
    and sel: "\<forall>c \<in> set selected_countries.
                \<exists>s. getitem df c = Inr s \<and> (\<forall>ts. s \<noteq> Datetime64 ts)"
  shows "\<exists>fig. update_price_graph lib w selected_countries start_date end_date
           = Inr (fig, map (\<lambda>c. (c, NaN, NaN, NaN)) selected_countries)"
proof -
  from filter_by_date_Inr [OF filt] obtain ts keep where
    sd: "getitem df ''Start date'' = Inr (Datetime64 ts)" and
    dff: "df_filtered = df_loc keep df"
    by blast
  from getitem_df_loc [OF sd, of keep]
  have x: "getitem df_filtered ''Start date'' = Inr (series_loc keep (Datetime64 ts))"
    by (simp add: dff)
  have y: "getitem df_filtered c = Inr (Object []) \<or> getitem df_filtered c = Inr (Float64 [])"
    if "c \<in> set selected_countries" for c
  proof -
    from that sel obtain s where s: "getitem df c = Inr s" "\<forall>ts. s \<noteq> Datetime64 ts"
      by blast
    from getitem_df_loc [OF s(1), of keep]
    have g: "getitem df_filtered c = Inr (series_loc keep s)"
      by (simp add: dff)
    from getitem_mem [OF g] zero have "series_len (series_loc keep s) = 0"
      by auto
    with s(2) g show ?thesis
      by (cases s) (auto simp: series_len_0 series_loc_def)
  qed
  have "\<forall>c \<in> set selected_countries. \<exists>tr. price_trace df_filtered c = Inr tr"
  proof
    fix c assume "c \<in> set selected_countries"
    from y [OF this] x show "\<exists>tr. price_trace df_filtered c = Inr tr"
      by (auto simp: price_trace_def)
  qed
  from map_err_total [OF this] obtain fig where
    traces: "map_err (price_trace df_filtered) selected_countries = Inr fig"
    by blast
  have stats: "map_err (price_stats lib df_filtered) selected_countries
      = Inr (map (\<lambda>c. (c, NaN, NaN, NaN)) selected_countries)"
  proof (rule map_err_Inr, rule ballI)
    fix c assume "c \<in> set selected_countries"
    from y [OF this] show "price_stats lib df_filtered c = Inr (c, NaN, NaN, NaN)"
      by (auto simp: price_stats_def series_stats_def strings_of_def)
  qed
  from load filt traces stats show ?thesis
    by (simp add: update_price_graph_def)
qed

lemma not_nan_Fin [simp]: "not_nan (map Fin qs) = map Fin qs"
  by (induction qs) (simp_all add: not_nan_def)

lemma foldl_fmax_Fin: "foldl fmax (Fin a) (map Fin qs) = Fin (fold max qs a)"
  by (induction qs arbitrary: a) (simp_all add: fmax_def max_def)

lemma foldl_fmin_Fin: "foldl fmin (Fin a) (map Fin qs) = Fin (fold min qs a)"
  by (induction qs arbitrary: a) (simp_all add: fmin_def min_def)

lemma nansum_Fin: "qs \<noteq> [] \<Longrightarrow> nansum lib (map Fin qs) = array_sum lib (map Fin qs)"
  by (simp add: nansum_def comp_def)

lemma nanmean_Fin:
  "qs \<noteq> [] \<Longrightarrow>
     nanmean lib (map Fin qs) = true_divide lib (array_sum lib (map Fin qs)) (length qs)"
  by (simp add: nanmean_def nansum_Fin)

lemma nanmax_Fin:
  assumes "qs \<noteq> []"
  shows "nanmax (map Fin qs) = Fin (Max (set qs))"
proof -
  from assms obtain q rest where qs: "qs = q # rest"
    by (cases qs) auto
  have "not_nan (map Fin (q # rest)) = Fin q # map Fin rest"
    using not_nan_Fin [of "q # rest"] by simp
  then have "nanmax (map Fin (q # rest)) = Fin (fold max rest q)"
    by (simp add: nanmax_def foldl_fmax_Fin)
  also have "fold max rest q = Max (set (q # rest))"
    by (simp only: Max.set_eq_fold)
  finally show ?thesis
    by (simp only: qs)
qed

lemma nanmin_Fin:
  assumes "qs \<noteq> []"
  shows "nanmin (map Fin qs) = Fin (Min (set qs))"
proof -
  from assms obtain q rest where qs: "qs = q # rest"
    by (cases qs) auto
  have "not_nan (map Fin (q # rest)) = Fin q # map Fin rest"
    using not_nan_Fin [of "q # rest"] by simp
  then have "nanmin (map Fin (q # rest)) = Fin (fold min rest q)"
    by (simp add: nanmin_def foldl_fmin_Fin)
  also have "fold min rest q = Min (set (q # rest))"
    by (simp only: Min.set_eq_fold)
  finally show ?thesis
    by (simp only: qs)
qed

lemma loc_list_rows_between:
  "loc_list (map (\<lambda>t. ts_le a t \<and> ts_le t b) ts) vs = rows_between ts a b vs"
  by (simp add: loc_list_map_zip rows_between_def)

lemma generation_totals_filtered:
  assumes load: "load_generation_data lib w = Inr df"
    and sd: "getitem df ''Start date'' = Inr (Datetime64 ts)"
    and sel: "set selected_sources \<subseteq> fst ` set colors" "set selected_sources \<subseteq> fst ` set df"
  shows "\<exists>fig. update_generation_graph lib w selected_sources start_date end_date
           = Inr (fig, map (\<lambda>c. (c, nansum lib (rows_between ts start_date end_date (column_floats df c))))
                         selected_sources)"
proof -
  let ?keep = "map (\<lambda>t. ts_le start_date t \<and> ts_le t end_date) ts"
  let ?dff = "df_loc ?keep df"
  have filt: "filter_by_date df start_date end_date = Inr ?dff"
    using sd by (simp add: filter_by_date_def date_mask_def)
  from getitem_df_loc [OF sd, of ?keep]
  have x: "getitem ?dff ''Start date'' = Inr (series_loc ?keep (Datetime64 ts))" .
  have y: "getitem ?dff c
      = Inr (Float64 (rows_between ts start_date end_date (column_floats df c)))"
    if "c \<in> set selected_sources" for c
  proof -
    from that sel colors_not_dates [of c] generation_loaded_float [OF load, of c]
    obtain ys where ys: "getitem df c = Inr (Float64 ys)"
      by blast
    then have "column_floats df c = ys"
      by (simp add: column_floats_def)
    with getitem_df_loc [OF ys, of ?keep] show ?thesis
      by (simp add: series_loc_def loc_list_rows_between)
  qed
  have "\<forall>c \<in> set selected_sources. \<exists>tr. generation_trace ?dff c = Inr tr"
  proof
    fix c assume c: "c \<in> set selected_sources"
    with sel colors_lookup [of c] obtain col where "map_of colors c = Some col"
      by blast
    with x y [OF c] show "\<exists>tr. generation_trace ?dff c = Inr tr"
      by (simp add: generation_trace_def)
  qed
  from map_err_total [OF this] obtain fig where
    traces: "map_err (generation_trace ?dff) selected_sources = Inr fig"
    by blast
  have totals: "map_err (generation_total lib ?dff) selected_sources
      = Inr (map (\<lambda>c. (c, nansum lib (rows_between ts start_date end_date (column_floats df c))))
               selected_sources)"
  proof (rule map_err_Inr, rule ballI)
    fix c assume "c \<in> set selected_sources"
    from y [OF this]
    show "generation_total lib ?dff c
        = Inr (c, nansum lib (rows_between ts start_date end_date (column_floats df c)))"
      by (simp add: generation_total_def series_sum_def)
  qed
  from load filt traces totals show ?thesis
    by (simp add: update_generation_graph_def)
qed

lemma price_statistics_filtered:
  assumes load: "load_price_data lib w = Inr df"
    and sd: "getitem df ''Start date'' = Inr (Datetime64 ts)"
    and sel: "\<forall>c \<in> set selected_countries. \<exists>ys. getitem df c = Inr (Float64 ys)"
  shows "\<exists>fig. update_price_graph lib w selected_countries start_date end_date
           = Inr (fig, map (\<lambda>c. (c, nanmean lib (rows_between ts start_date end_date (column_floats df c)),
                                     nanmax (rows_between ts start_date end_date (column_floats df c)),
                                     nanmin (rows_between ts start_date end_date (column_floats df c))))
                         selected_countries)"
proof -
  let ?keep = "map (\<lambda>t. ts_le start_date t \<and> ts_le t end_date) ts"
  let ?dff = "df_loc ?keep df"
  have filt: "filter_by_date df start_date end_date = Inr ?dff"
    using sd by (simp add: filter_by_date_def date_mask_def)
  from getitem_df_loc [OF sd, of ?keep]
  have x: "getitem ?dff ''Start date'' = Inr (series_loc ?keep (Datetime64 ts))" .
  have y: "getitem ?dff c
      = Inr (Float64 (rows_between ts start_date end_date (column_floats df c)))"
    if "c \<in> set selected_countries" for c
  proof -
    from that sel obtain ys where ys: "getitem df c = Inr (Float64 ys)"
      by blast
    then have "column_floats df c = ys"
      by (simp add: column_floats_def)
    with getitem_df_loc [OF ys, of ?keep] show ?thesis
      by (simp add: series_loc_def loc_list_rows_between)
  qed
  have "\<forall>c \<in> set selected_countries. \<exists>tr. price_trace ?dff c = Inr tr"
  proof
    fix c assume c: "c \<in> set selected_countries"
    from x y [OF c] show "\<exists>tr. price_trace ?dff c = Inr tr"
      by (simp add: price_trace_def)
  qed
  from map_err_total [OF this] obtain fig where
    traces: "map_err (price_trace ?dff) selected_countries = Inr fig"
    by blast
  have stats: "map_err (price_stats lib ?dff) selected_countries
      = Inr (map (\<lambda>c. (c, nanmean lib (rows_between ts start_date end_date (column_floats df c)),
                          nanmax (rows_between ts start_date end_date (column_floats df c)),
                          nanmin (rows_between ts start_date end_date (column_floats df c))))
               selected_countries)"
  proof (rule map_err_Inr, rule ballI)
    fix c assume "c \<in> set selected_countries"
    from y [OF this]
    show "price_stats lib ?dff c
        = Inr (c, nanmean lib (rows_between ts start_date end_date (column_floats df c)),
                  nanmax (rows_between ts start_date end_date (column_floats df c)),
                  nanmin (rows_between ts start_date end_date (column_floats df c)))"
      by (simp add: price_stats_def series_stats_def)
  qed
  from load filt traces stats show ?thesis
    by (simp add: update_price_graph_def)
qed

lemma same_file_same_generation:
  "generation_csv w = generation_csv w' \<Longrightarrow>
     load_generation_data lib w = load_generation_data lib w'"
  by (simp add: load_generation_data_def)

lemma same_file_same_price:
  "price_csv w = price_csv w' \<Longrightarrow>
     load_price_data lib w = load_price_data lib w'"
  by (simp add: load_price_data_def)

subsection \<open>The example files, loaded\<close>

lemmas example_defs =
  example_library_def to_datetime_days_def day_of_def read_decimal_def is_digit_def
  digits_val_def digit_val_def exact_sum_def

lemmas load_defs =
  load_generation_data_def load_price_data_def clean_header_def
  py_split_def numeric_columns_def generation_column_def price_column_def set_columns_def
  columns_named_def series_replace_def iloc0_is_str_def series_len_def series_str_replace_def
  str_replace_def astype_float_def to_float_def

lemmas callback_defs =
  update_generation_graph_def update_price_graph_def filter_by_date_def getitem_def
  date_mask_def df_loc_def series_loc_def generation_trace_def generation_total_def
  price_trace_def price_stats_def series_sum_def series_stats_def strings_of_def colors_def
  nansum_def nanmean_def nanmax_def nanmin_def not_nan_def fmax_def fmin_def

lemma three_days_generation:
  "load_generation_data example_library three_days
     = Inr [(''Start date'', Datetime64 [At 1, At 2, At 3]),
            (''End date'', Object [Str ''2'', Str ''3'', Str ''4'']),
            (''Biomass'', Float64 [Fin 1234, Fin 0, Fin (617 / 500)]),
            (''Wind onshore'', Float64 [Fin (394613 / 4), Fin 100, Fin 0])]"
  by (simp add: three_days_def load_defs example_defs)

lemma three_days_price:
  "load_price_data example_library three_days
     = Inr [(''Start date'', Datetime64 [At 1, At 2, At 3]),
            (''End date'', Object [Str ''2'', Str ''3'', Str ''4'']),
            (''Germany/Luxembourg'', Float64 [Fin (4567 / 100), Fin 0, Fin (201 / 2)]),
            (''France'', Float64 [Fin 10, Fin 20, Fin 30])]"
  by (simp add: three_days_def load_defs example_defs)

subsection \<open>Header cleanup and field normalisation\<close>

lemma str_replace_remove: "str_replace c [] t = filter (\<lambda>d. d \<noteq> c) t"
  by (induction t) (simp_all add: str_replace_def)

text \<open>
  C2 (as amended). A header whose first opening bracket comes directly after a space is
  cut before that space, and nothing else is trimmed; a header without an opening bracket
  is kept as it is. Both loaders give every column of their file the header cleaned in
  this way.
\<close>

theorem clean_header_cuts_at_space_bracket:
  "(CHR ''['' \<notin> set p \<longrightarrow> clean_header (p @ '' ['' @ rest) = p)
   \<and> (CHR ''['' \<notin> set h \<longrightarrow> clean_header h = h)
   \<and> (generation_csv w = Inr gen_raw \<and> load_generation_data lib w = Inr gen_df \<longrightarrow>
        map fst gen_df = map (clean_header \<circ> fst) gen_raw)
   \<and> (price_csv w = Inr price_raw \<and> load_price_data lib w = Inr price_df \<longrightarrow>
        map fst price_df = map (clean_header \<circ> fst) price_raw)"
proof (intro conjI impI)
  assume "CHR ''['' \<notin> set p"
  then show "clean_header (p @ '' ['' @ rest) = p"
    by (rule clean_header_space_bracket)
next
  assume "CHR ''['' \<notin> set h"
  then show "clean_header h = h"
    by (simp add: clean_header_def)
next
  assume "generation_csv w = Inr gen_raw \<and> load_generation_data lib w = Inr gen_df"
  then show "map fst gen_df = map (clean_header \<circ> fst) gen_raw"
    using load_generation_data_labels [of lib w gen_df gen_raw] by blast
next
  assume "price_csv w = Inr price_raw \<and> load_price_data lib w = Inr price_df"
  then show "map fst price_df = map (clean_header \<circ> fst) price_raw"
    using load_price_data_labels [of lib w price_df price_raw] by blast
qed

text \<open>
  C2 as stated fails: the text before the bracket is not trimmed of its trailing
  whitespace. Of two spaces before the bracket one stays at the end of the cleaned name.
\<close>

theorem clean_header_bracket_kept_counterexample:
  "clean_header ''Price  [EUR]'' = ''Price '' \<and> clean_header ''Price  [EUR]'' \<noteq> ''Price''"
  by (simp add: clean_header_def py_split_def)

text \<open>
  The rule at a header of the generation file, at a header without a bracket, and in both
  loaders on the example files.
\<close>

theorem clean_header_cuts_at_space_bracket_witness:
  "CHR ''['' \<notin> set ''Biomass''
   \<and> clean_header ''Biomass [MWh] Calculated resolutions'' = ''Biomass''
   \<and> CHR ''['' \<notin> set ''Start date''
   \<and> clean_header ''Start date'' = ''Start date''
   \<and> (\<exists>df. load_generation_data example_library three_days = Inr df
          \<and> map fst df = [''Start date'', ''End date'', ''Biomass'', ''Wind onshore''])
   \<and> (\<exists>df. load_price_data example_library three_days = Inr df
          \<and> map fst df = [''Start date'', ''End date'', ''Germany/Luxembourg'', ''France''])"
proof -
  let ?graw = "[(''Start date'', Object [Str ''1'', Str ''2'', Str ''3'']),
         (''End date'', Object [Str ''2'', Str ''3'', Str ''4'']),
         (''Biomass [MWh] Calculated resolutions'', Object [Str ''1,234'', Str ''-'', Str ''1.234'']),
         (''Wind onshore [MWh] Calculated resolutions'',
            Object [Str ''98,653.25'', Str ''100'', Str ''-''])]"
  let ?praw = "[(''Start date'', Object [Str ''1'', Str ''2'', Str ''3'']),
         (''End date'', Object [Str ''2'', Str ''3'', Str ''4'']),
         (''Germany/Luxembourg [EUR/MWh] Original resolutions'',
            Object [Str ''45,67'', Str ''-'', Str ''100,5'']),
         (''France [EUR/MWh] Original resolutions'', Float64 [Fin 10, Fin 20, Fin 30])]"
  let ?gdf = "[(''Start date'', Datetime64 [At 1, At 2, At 3]),
            (''End date'', Object [Str ''2'', Str ''3'', Str ''4'']),
            (''Biomass'', Float64 [Fin 1234, Fin 0, Fin (617 / 500)]),
            (''Wind onshore'', Float64 [Fin (394613 / 4), Fin 100, Fin 0])]"
  let ?pdf = "[(''Start date'', Datetime64 [At 1, At 2, At 3]),
            (''End date'', Object [Str ''2'', Str ''3'', Str ''4'']),
            (''Germany/Luxembourg'', Float64 [Fin (4567 / 100), Fin 0, Fin (201 / 2)]),
            (''France'', Float64 [Fin 10, Fin 20, Fin 30])]"
  have a: "CHR ''['' \<notin> set ''Biomass''" and b: "CHR ''['' \<notin> set ''Start date''"
    by simp_all
  have g: "generation_csv three_days = Inr ?graw" and p: "price_csv three_days = Inr ?praw"
    by (simp_all add: three_days_def)
  note T = clean_header_cuts_at_space_bracket
    [where p = "''Biomass''" and rest = "''MWh] Calculated resolutions''"
       and h = "''Start date''" and w = three_days and lib = example_library
       and gen_raw = ?graw and gen_df = ?gdf and price_raw = ?praw and price_df = ?pdf]
  from T a b g p three_days_generation three_days_price show ?thesis
    by (simp add: clean_header_def py_split_def)
qed

text \<open>
  C3 (as amended). In a loaded generation table every textual column other than the two
  date columns has become a float column, field by field: the marker \<open>-\<close> is first taken
  as the text \<open>0\<close>, then every comma (the thousands separator of the export) is removed,
  then \<open>float\<close> converts the rest; a missing field becomes NaN. So \<open>1,234\<close> is converted
  as \<open>float('1234')\<close> and \<open>-\<close> as \<open>float('0')\<close>, while the point of \<open>1.234\<close> is not
  removed: that field is converted as \<open>float('1.234')\<close>.
\<close>

theorem generation_fields_normalized:
  "(generation_csv w = Inr raw \<and> load_generation_data lib w = Inr df
      \<and> i < length raw \<and> raw ! i = (h, Object xs)
      \<and> clean_header h \<noteq> ''Start date'' \<and> clean_header h \<noteq> ''End date'' \<longrightarrow>
        (\<exists>ys. df ! i = (clean_header h, Float64 ys)
           \<and> list_all2 (\<lambda>x y. cell_with (generation_field lib) x = Some y) xs ys))
   \<and> generation_field lib t
        = float_of_str lib (filter (\<lambda>c. c \<noteq> CHR '','') (if t = ''-'' then ''0'' else t))
   \<and> generation_field lib ''1,234'' = float_of_str lib ''1234''
   \<and> generation_field lib ''-'' = float_of_str lib ''0''
   \<and> generation_field lib ''1.234'' = float_of_str lib ''1.234''"
  using generation_loaded_cells [of w raw lib df i h xs]
  by (simp add: generation_field_def str_replace_remove)

text \<open>
  C3 as stated fails at the field \<open>1.234\<close>: the generation loader turns it into 1.234, not
  into 1234.0.
\<close>

theorem generation_point_kept_counterexample:
  "load_generation_data example_library three_days
     = Inr [(''Start date'', Datetime64 [At 1, At 2, At 3]),
            (''End date'', Object [Str ''2'', Str ''3'', Str ''4'']),
            (''Biomass'', Float64 [Fin 1234, Fin 0, Fin (617 / 500)]),
            (''Wind onshore'', Float64 [Fin (394613 / 4), Fin 100, Fin 0])]
   \<and> Fin (617 / 500) \<noteq> Fin 1234"
  using three_days_generation by simp

text \<open>
  The column \<open>Biomass\<close> of the example generation file, at position 2 of the frame.
\<close>

theorem generation_fields_normalized_witness:
  "generation_csv three_days = Inr
        [(''Start date'', Object [Str ''1'', Str ''2'', Str ''3'']),
         (''End date'', Object [Str ''2'', Str ''3'', Str ''4'']),
         (''Biomass [MWh] Calculated resolutions'', Object [Str ''1,234'', Str ''-'', Str ''1.234'']),
         (''Wind onshore [MWh] Calculated resolutions'',
            Object [Str ''98,653.25'', Str ''100'', Str ''-''])]
   \<and> (\<exists>df ys. load_generation_data example_library three_days = Inr df
         \<and> df ! 2 = (''Biomass'', Float64 ys)
         \<and> list_all2 (\<lambda>x y. cell_with (generation_field example_library) x = Some y)
             [Str ''1,234'', Str ''-'', Str ''1.234''] ys)"
proof -
  let ?graw = "[(''Start date'', Object [Str ''1'', Str ''2'', Str ''3'']),
         (''End date'', Object [Str ''2'', Str ''3'', Str ''4'']),
         (''Biomass [MWh] Calculated resolutions'', Object [Str ''1,234'', Str ''-'', Str ''1.234'']),
         (''Wind onshore [MWh] Calculated resolutions'',
            Object [Str ''98,653.25'', Str ''100'', Str ''-''])]"
  let ?gdf = "[(''Start date'', Datetime64 [At 1, At 2, At 3]),
            (''End date'', Object [Str ''2'', Str ''3'', Str ''4'']),
            (''Biomass'', Float64 [Fin 1234, Fin 0, Fin (617 / 500)]),
            (''Wind onshore'', Float64 [Fin (394613 / 4), Fin 100, Fin 0])]"
  have g: "generation_csv three_days = Inr ?graw"
    by (simp add: three_days_def)
  have c: "clean_header ''Biomass [MWh] Calculated resolutions'' = ''Biomass''"
    by (simp add: clean_header_def py_split_def)
  note T = generation_fields_normalized
    [where w = three_days and raw = ?graw and lib = example_library and df = ?gdf
       and i = 2 and h = "''Biomass [MWh] Calculated resolutions''"
       and xs = "[Str ''1,234'', Str ''-'', Str ''1.234'']"]
  from T g c three_days_generation show ?thesis
    by simp
qed

subsection \<open>Failure and success of the conversion\<close>

lemma those_map_Some: "\<forall>x \<in> set xs. f x \<noteq> None \<Longrightarrow> \<exists>ys. those (map f xs) = Some ys"
  by (induction xs) auto

lemma for_columns_generation_succeeds:
  assumes "\<forall>c \<in> set cs. \<exists>xs. columns_named c df = [Object xs]
              \<and> (\<forall>x \<in> set xs. cell_with (generation_field lib) x \<noteq> None)"
    and "distinct cs"
  shows "\<exists>df'. for_columns (generation_column lib) cs df = Inr df'"
  using assms
proof (induction cs arbitrary: df)
  case Nil
  then show ?case by simp
next
  case (Cons c cs)
  let ?Q = "\<lambda>df c. \<exists>xs. columns_named c df = [Object xs]
              \<and> (\<forall>x \<in> set xs. cell_with (generation_field lib) x \<noteq> None)"
  from Cons.prems(1) have "?Q df c"
    by simp
  then obtain xs where col: "columns_named c df = [Object xs]"
    and ok: "\<forall>x \<in> set xs. cell_with (generation_field lib) x \<noteq> None"
    by blast
  from those_map_Some [OF ok] obtain ys where
    conv: "those (map (cell_with (generation_field lib)) xs) = Some ys"
    by blast
  let ?df1 = "set_columns c (\<lambda>_. Float64 ys) df"
  have step: "generation_column lib c df = Inr ?df1"
    by (simp add: generation_column_object [OF col] conv)
  have other: "\<And>n. n \<noteq> c \<Longrightarrow> columns_named n ?df1 = columns_named n df"
    by (simp add: columns_named_set_columns)
  have "\<forall>c' \<in> set cs. ?Q ?df1 c'"
  proof
    fix c' assume c': "c' \<in> set cs"
    with Cons.prems(2) have "c' \<noteq> c"
      by auto
    from other [OF this] have same: "columns_named c' ?df1 = columns_named c' df" .
    from Cons.prems(1) c' have "?Q df c'"
      by simp
    then show "?Q ?df1 c'"
      by (simp only: same)
  qed
  moreover from Cons.prems(2) have "distinct cs"
    by simp
  ultimately have "\<exists>df'. for_columns (generation_column lib) cs ?df1 = Inr df'"
    by (rule Cons.IH)
  with step show ?case
    by simp
qed

lemma generation_load_succeeds:
  assumes raw: "generation_csv w = Inr raw" "map_of raw ''Start date'' = Some s"
      "to_datetime lib s = Inr ts"
    and cols: "\<forall>c \<in> clean_header ` fst ` set raw. c \<noteq> ''Start date'' \<and> c \<noteq> ''End date'' \<longrightarrow>
        (\<exists>h xs. filter (\<lambda>(h', s). clean_header h' = c) raw = [(h, Object xs)]
           \<and> (\<forall>t. Str t \<in> set xs \<longrightarrow> generation_field lib t \<noteq> None))"
  shows "\<exists>df. load_generation_data lib w = Inr df"
proof -
  let ?df = "prepared ts raw"
  have "\<forall>c \<in> set (numeric_columns ?df). \<exists>xs. columns_named c ?df = [Object xs]
           \<and> (\<forall>x \<in> set xs. cell_with (generation_field lib) x \<noteq> None)"
  proof
    fix c assume "c \<in> set (numeric_columns ?df)"
    then have c: "c \<in> clean_header ` fst ` set raw" "c \<noteq> ''Start date''" "c \<noteq> ''End date''"
      by (auto simp: set_numeric_columns fst_set_prepared)
    let ?P = "\<exists>h xs. filter (\<lambda>(h', s). clean_header h' = c) raw = [(h, Object xs)]
           \<and> (\<forall>t. Str t \<in> set xs \<longrightarrow> generation_field lib t \<noteq> None)"
    from cols c(1) have "c \<noteq> ''Start date'' \<and> c \<noteq> ''End date'' \<longrightarrow> ?P"
      by (rule bspec)
    moreover from c(2,3) have "c \<noteq> ''Start date'' \<and> c \<noteq> ''End date''"
      by (rule conjI)
    ultimately have ?P
      by (rule mp)
    then obtain h xs where
      one: "filter (\<lambda>(h', s). clean_header h' = c) raw = [(h, Object xs)]" and
      ok: "\<forall>t. Str t \<in> set xs \<longrightarrow> generation_field lib t \<noteq> None"
      by (elim exE conjE)
    have cells: "\<forall>x \<in> set xs. cell_with (generation_field lib) x \<noteq> None"
    proof
      fix x assume x: "x \<in> set xs"
      show "cell_with (generation_field lib) x \<noteq> None"
      proof (cases x)
        case (Str t)
        with x ok have "generation_field lib t \<noteq> None"
          by simp
        with Str show ?thesis
          by (simp add: cell_with_def)
      next
        case Missing
        then show ?thesis
          by (simp add: cell_with_def)
      qed
    qed
    from category_column_prepared [OF one c(2)]
    have "columns_named c ?df = [Object xs]" .
    with cells
    show "\<exists>xs. columns_named c ?df = [Object xs]
           \<and> (\<forall>x \<in> set xs. cell_with (generation_field lib) x \<noteq> None)"
      by (intro exI conjI)
  qed
  from for_columns_generation_succeeds [OF this distinct_numeric_columns]
  obtain df where "for_columns (generation_column lib) (numeric_columns ?df) ?df = Inr df"
    by (elim exE)
  then have "load_generation_data lib w = Inr df"
    by (simp only: load_generation_data_eq [OF raw])
  then show ?thesis ..
qed

text \<open>
  C7 (as amended). If a textual column of the generation file, other than the date
  columns, has a field whose text \<open>float\<close> rejects after the two substitutions, loading
  fails. The same holds in the price file for a column whose cleaned label is unique and
  whose first field is textual. When the file was read, its dates were parsed, and every
  other column has a unique cleaned label and is textual (generation) or has at least one
  row (price), the only error a loader raises is the \<open>ValueError\<close> of the conversion.
  Under the same conditions the generation loader succeeds when \<open>float\<close> accepts every
  textual field after the two substitutions: what decides is the verdict of \<open>float\<close>,
  not whether the text is a real number.
\<close>

theorem unparsable_text_fails_load:
  "(generation_csv w = Inr gen_raw \<and> (h, Object xs) \<in> set gen_raw
      \<and> clean_header h \<noteq> ''Start date'' \<and> clean_header h \<noteq> ''End date''
      \<and> Str t \<in> set xs \<and> generation_field lib t = None \<longrightarrow>
        (\<exists>e. load_generation_data lib w = Inl e))
   \<and> (price_csv w = Inr price_raw
      \<and> filter (\<lambda>(k', s). clean_header k' = clean_header k) price_raw
           = [(k, Object (Str u0 # us))]
      \<and> clean_header k \<noteq> ''Start date'' \<and> clean_header k \<noteq> ''End date''
      \<and> Str u \<in> set (Str u0 # us) \<and> price_field lib u = None \<longrightarrow>
        (\<exists>e. load_price_data lib w = Inl e))
   \<and> (generation_csv w = Inr gen_raw \<and> map_of gen_raw ''Start date'' = Some gen_dates
      \<and> to_datetime lib gen_dates = Inr gen_ts
      \<and> (\<forall>c \<in> clean_header ` fst ` set gen_raw. c \<noteq> ''Start date'' \<and> c \<noteq> ''End date'' \<longrightarrow>
            (\<exists>h xs. filter (\<lambda>(h', s). clean_header h' = c) gen_raw = [(h, Object xs)]))
      \<and> load_generation_data lib w = Inl e \<longrightarrow> e = ValueError)
   \<and> (price_csv w = Inr price_raw \<and> map_of price_raw ''Start date'' = Some price_dates
      \<and> to_datetime lib price_dates = Inr price_ts
      \<and> (\<forall>c \<in> clean_header ` fst ` set price_raw. c \<noteq> ''Start date'' \<and> c \<noteq> ''End date'' \<longrightarrow>
            (\<exists>h s. filter (\<lambda>(h', s). clean_header h' = c) price_raw = [(h, s)]
               \<and> series_len s \<noteq> 0))
      \<and> load_price_data lib w = Inl e' \<longrightarrow> e' = ValueError)
   \<and> (generation_csv v = Inr raw \<and> map_of raw ''Start date'' = Some dates
      \<and> to_datetime lib dates = Inr ts
      \<and> (\<forall>c \<in> clean_header ` fst ` set raw. c \<noteq> ''Start date'' \<and> c \<noteq> ''End date'' \<longrightarrow>
            (\<exists>h xs. filter (\<lambda>(h', s). clean_header h' = c) raw = [(h, Object xs)]
               \<and> (\<forall>t. Str t \<in> set xs \<longrightarrow> generation_field lib t \<noteq> None)))
      \<longrightarrow> (\<exists>df. load_generation_data lib v = Inr df))"
proof (intro conjI impI)
  assume "generation_csv w = Inr gen_raw \<and> (h, Object xs) \<in> set gen_raw
      \<and> clean_header h \<noteq> ''Start date'' \<and> clean_header h \<noteq> ''End date''
      \<and> Str t \<in> set xs \<and> generation_field lib t = None"
  then show "\<exists>e. load_generation_data lib w = Inl e"
    using generation_load_fails [of w gen_raw h xs t lib] by blast
next
  assume "price_csv w = Inr price_raw
      \<and> filter (\<lambda>(k', s). clean_header k' = clean_header k) price_raw
           = [(k, Object (Str u0 # us))]
      \<and> clean_header k \<noteq> ''Start date'' \<and> clean_header k \<noteq> ''End date''
      \<and> Str u \<in> set (Str u0 # us) \<and> price_field lib u = None"
  then show "\<exists>e. load_price_data lib w = Inl e"
    using price_load_fails [of w price_raw k u0 us u lib] by blast
next
  assume "generation_csv w = Inr gen_raw \<and> map_of gen_raw ''Start date'' = Some gen_dates
      \<and> to_datetime lib gen_dates = Inr gen_ts
      \<and> (\<forall>c \<in> clean_header ` fst ` set gen_raw. c \<noteq> ''Start date'' \<and> c \<noteq> ''End date'' \<longrightarrow>
            (\<exists>h xs. filter (\<lambda>(h', s). clean_header h' = c) gen_raw = [(h, Object xs)]))
      \<and> load_generation_data lib w = Inl e"
  then show "e = ValueError"
    using generation_load_error_kind [of w gen_raw gen_dates lib gen_ts e] by blast
next
  assume "price_csv w = Inr price_raw \<and> map_of price_raw ''Start date'' = Some price_dates
      \<and> to_datetime lib price_dates = Inr price_ts
      \<and> (\<forall>c \<in> clean_header ` fst ` set price_raw. c \<noteq> ''Start date'' \<and> c \<noteq> ''End date'' \<longrightarrow>
            (\<exists>h s. filter (\<lambda>(h', s). clean_header h' = c) price_raw = [(h, s)]
               \<and> series_len s \<noteq> 0))
      \<and> load_price_data lib w = Inl e'"
  then show "e' = ValueError"
    using price_load_error_kind [of w price_raw price_dates lib price_ts e'] by blast
next
  assume "generation_csv v = Inr raw \<and> map_of raw ''Start date'' = Some dates
      \<and> to_datetime lib dates = Inr ts
      \<and> (\<forall>c \<in> clean_header ` fst ` set raw. c \<noteq> ''Start date'' \<and> c \<noteq> ''End date'' \<longrightarrow>
            (\<exists>h xs. filter (\<lambda>(h', s). clean_header h' = c) raw = [(h, Object xs)]
               \<and> (\<forall>t. Str t \<in> set xs \<longrightarrow> generation_field lib t \<noteq> None)))"
  then show "\<exists>df. load_generation_data lib v = Inr df"
    by (elim conjE) (rule generation_load_succeeds)
qed

text \<open>
  C7 as stated fails: the text \<open>inf\<close> is not a real number, yet \<open>float\<close> accepts it, and
  the generation loader converts it, to positive infinity, and succeeds.
\<close>

theorem infinity_text_accepted_counterexample:
  "load_generation_data example_library
     \<lparr>generation_csv = Inr
        [(''Start date'', Object [Str ''1'', Str ''2'']),
         (''End date'', Object [Str ''2'', Str ''3'']),
         (''Nuclear [MWh] Calculated resolutions'', Object [Str ''-'', Str ''inf''])],
      price_csv = Inl FileNotFoundError\<rparr>
   = Inr [(''Start date'', Datetime64 [At 1, At 2]),
          (''End date'', Object [Str ''2'', Str ''3'']),
          (''Nuclear'', Float64 [Fin 0, PInf])]"
  by (simp add: load_defs example_defs)

text \<open>
  Both loaders on files with the field \<open>abc\<close>, and the generation loader on a file whose
  fields are all accepted.
\<close>

theorem unparsable_text_fails_load_witness:
  "generation_field example_library ''abc'' = None \<and> price_field example_library ''abc'' = None
   \<and> load_generation_data example_library bad_text = Inl ValueError
   \<and> load_price_data example_library bad_text = Inl ValueError
   \<and> generation_field example_library ''1,234'' \<noteq> None
   \<and> (\<exists>df. load_generation_data example_library three_days = Inr df)"
proof -
  let ?graw = "[(''Start date'', Object [Str ''1'', Str ''2'']),
         (''Biomass [MWh] Calculated resolutions'', Object [Str ''-'', Str ''abc''])]"
  let ?praw = "[(''Start date'', Object [Str ''1'', Str ''2'']),
         (''France [EUR/MWh] Original resolutions'', Object [Str ''45,67'', Str ''abc''])]"
  let ?good = "[(''Start date'', Object [Str ''1'', Str ''2'', Str ''3'']),
         (''End date'', Object [Str ''2'', Str ''3'', Str ''4'']),
         (''Biomass [MWh] Calculated resolutions'', Object [Str ''1,234'', Str ''-'', Str ''1.234'']),
         (''Wind onshore [MWh] Calculated resolutions'',
            Object [Str ''98,653.25'', Str ''100'', Str ''-''])]"
  have g: "generation_csv bad_text = Inr ?graw"
    by (simp add: bad_text_def)
  have m: "(''Biomass [MWh] Calculated resolutions'', Object [Str ''-'', Str ''abc'']) \<in> set ?graw"
      "Str ''abc'' \<in> set [Str ''-'', Str ''abc'']"
    by simp_all
  have c: "clean_header ''Biomass [MWh] Calculated resolutions'' = ''Biomass''"
      "clean_header ''Wind onshore [MWh] Calculated resolutions'' = ''Wind onshore''"
      "clean_header ''Start date'' = ''Start date''"
      "clean_header ''End date'' = ''End date''"
    by (simp_all add: clean_header_def py_split_def)
  have f: "generation_field example_library ''abc'' = None"
      "price_field example_library ''abc'' = None"
    by (simp_all add: generation_field_def price_field_def str_replace_def example_defs)
  have ok: "generation_field example_library ''1,234'' \<noteq> None"
      "generation_field example_library ''-'' \<noteq> None"
      "generation_field example_library ''1.234'' \<noteq> None"
      "generation_field example_library ''98,653.25'' \<noteq> None"
      "generation_field example_library ''100'' \<noteq> None"
    by (simp_all add: generation_field_def str_replace_def example_defs)
  have lg: "load_generation_data example_library bad_text = Inl ValueError"
    by (simp add: bad_text_def load_defs example_defs)
  have lp: "load_price_data example_library bad_text = Inl ValueError"
    by (simp add: bad_text_def load_defs example_defs)
  have good: "generation_csv three_days = Inr ?good"
    by (simp add: three_days_def)
  have dates: "map_of ?good ''Start date'' = Some (Object [Str ''1'', Str ''2'', Str ''3''])"
    by simp
  have d3: "to_datetime example_library (Object [Str ''1'', Str ''2'', Str ''3''])
      = Inr [At 1, At 2, At 3]"
    by (simp add: example_defs)
  have cols: "\<forall>c \<in> clean_header ` fst ` set ?good. c \<noteq> ''Start date'' \<and> c \<noteq> ''End date'' \<longrightarrow>
      (\<exists>h xs. filter (\<lambda>(h', s). clean_header h' = c) ?good = [(h, Object xs)]
         \<and> (\<forall>t. Str t \<in> set xs \<longrightarrow> generation_field example_library t \<noteq> None))"
    using ok by (auto simp: c)
  note T = unparsable_text_fails_load
    [where w = bad_text and lib = example_library
       and gen_raw = ?graw and h = "''Biomass [MWh] Calculated resolutions''"
       and xs = "[Str ''-'', Str ''abc'']" and t = "''abc''"
       and price_raw = ?praw and k = "''France [EUR/MWh] Original resolutions''"
       and ?u0.0 = "''45,67''" and us = "[Str ''abc'']" and u = "''abc''"
       and gen_dates = "Object [Str ''1'', Str ''2'']" and gen_ts = "[At 1, At 2]"
       and price_dates = "Object [Str ''1'', Str ''2'']" and price_ts = "[At 1, At 2]"
       and e = ValueError and e' = ValueError
       and v = three_days and raw = ?good
       and dates = "Object [Str ''1'', Str ''2'', Str ''3'']" and ts = "[At 1, At 2, At 3]"]
  from T have T1: "generation_csv bad_text = Inr ?graw
      \<and> (''Biomass [MWh] Calculated resolutions'', Object [Str ''-'', Str ''abc'']) \<in> set ?graw
      \<and> clean_header ''Biomass [MWh] Calculated resolutions'' \<noteq> ''Start date''
      \<and> clean_header ''Biomass [MWh] Calculated resolutions'' \<noteq> ''End date''
      \<and> Str ''abc'' \<in> set [Str ''-'', Str ''abc'']
      \<and> generation_field example_library ''abc'' = None \<longrightarrow>
        (\<exists>e. load_generation_data example_library bad_text = Inl e)"
    by (rule conjunct1)
  have fails: "\<exists>e. load_generation_data example_library bad_text = Inl e"
    by (rule mp [OF T1]) (simp add: g c f)
  from T have T5: "generation_csv three_days = Inr ?good
      \<and> map_of ?good ''Start date'' = Some (Object [Str ''1'', Str ''2'', Str ''3''])
      \<and> to_datetime example_library (Object [Str ''1'', Str ''2'', Str ''3'']) = Inr [At 1, At 2, At 3]
      \<and> (\<forall>c \<in> clean_header ` fst ` set ?good. c \<noteq> ''Start date'' \<and> c \<noteq> ''End date'' \<longrightarrow>
            (\<exists>h xs. filter (\<lambda>(h', s). clean_header h' = c) ?good = [(h, Object xs)]
               \<and> (\<forall>t. Str t \<in> set xs \<longrightarrow> generation_field example_library t \<noteq> None)))
      \<longrightarrow> (\<exists>df. load_generation_data example_library three_days = Inr df)"
    by (rule conjunct2 [OF conjunct2 [OF conjunct2 [OF conjunct2]]])
  have succ: "\<exists>df. load_generation_data example_library three_days = Inr df"
    by (rule mp [OF T5]) (intro conjI good dates d3 cols)
  from fails succ f lg lp ok(1) show ?thesis
    by simp
qed

subsection \<open>Summaries and reloading\<close>

lemma series_stats_prices:
  assumes "array_sum lib [Fin 10, Fin 20, Fin 30] = Fin 60" and "true_divide lib (Fin 60) 3 = Fin 20"
  shows "series_stats lib (Float64 [Fin 10, Fin 20, Fin 30]) = Inr (Fin 20, Fin 30, Fin 10)"
proof -
  have "length [Fin 10, Fin 20, Fin (30::rat)] = 3"
    by simp
  with assms show ?thesis
    by (simp add: series_stats_def nanmean_def nansum_def nanmax_def nanmin_def not_nan_def
        fmax_def fmin_def del: length_Cons list.size)
qed

text \<open>
  C6. The total that the generation callback reports for a selected source is the sum of
  that column over exactly the rows whose timestamp lies between the two dates; the
  price callback reports mean, maximum and minimum of the selected column over exactly
  these rows. On finite values, at least one of them, maximum and minimum are the greatest
  and the least value, the sum is the library's sum of the values, and the mean is the
  library's quotient of that sum by the number of values. For the prices 10, 20, 30, whose
  float sum is 60 with the quotient 20 by 3, the three statistics are 20, 30 and 10.
\<close>

theorem summaries_over_filtered_rows:
  "(load_generation_data lib w = Inr gen_df
      \<and> getitem gen_df ''Start date'' = Inr (Datetime64 gen_ts)
      \<and> set selected_sources \<subseteq> fst ` set colors
      \<and> set selected_sources \<subseteq> fst ` set gen_df \<longrightarrow>
        (\<exists>fig. update_generation_graph lib w selected_sources start_date end_date
           = Inr (fig,
                  map (\<lambda>c. (c, nansum lib (rows_between gen_ts start_date end_date
                                              (column_floats gen_df c))))
                    selected_sources)))
   \<and> (load_price_data lib w = Inr price_df
      \<and> getitem price_df ''Start date'' = Inr (Datetime64 price_ts)
      \<and> (\<forall>c \<in> set selected_countries. \<exists>ys. getitem price_df c = Inr (Float64 ys)) \<longrightarrow>
        (\<exists>fig. update_price_graph lib w selected_countries start_date end_date
           = Inr (fig,
                  map (\<lambda>c. (c,
                         nanmean lib (rows_between price_ts start_date end_date
                                        (column_floats price_df c)),
                         nanmax (rows_between price_ts start_date end_date
                                    (column_floats price_df c)),
                         nanmin (rows_between price_ts start_date end_date
                                    (column_floats price_df c))))
                    selected_countries)))
   \<and> (qs \<noteq> [] \<longrightarrow>
        nansum lib (map Fin qs) = array_sum lib (map Fin qs)
        \<and> nanmean lib (map Fin qs) = true_divide lib (array_sum lib (map Fin qs)) (length qs)
        \<and> nanmax (map Fin qs) = Fin (Max (set qs))
        \<and> nanmin (map Fin qs) = Fin (Min (set qs)))
   \<and> (array_sum lib [Fin 10, Fin 20, Fin 30] = Fin 60 \<and> true_divide lib (Fin 60) 3 = Fin 20 \<longrightarrow>
        series_stats lib (Float64 [Fin 10, Fin 20, Fin 30]) = Inr (Fin 20, Fin 30, Fin 10))"
proof (intro conjI impI)
  assume "load_generation_data lib w = Inr gen_df
      \<and> getitem gen_df ''Start date'' = Inr (Datetime64 gen_ts)
      \<and> set selected_sources \<subseteq> fst ` set colors
      \<and> set selected_sources \<subseteq> fst ` set gen_df"
  then show "\<exists>fig. update_generation_graph lib w selected_sources start_date end_date
           = Inr (fig,
                  map (\<lambda>c. (c, nansum lib (rows_between gen_ts start_date end_date
                                              (column_floats gen_df c))))
                    selected_sources)"
    by (elim conjE) (rule generation_totals_filtered)
next
  assume "load_price_data lib w = Inr price_df
      \<and> getitem price_df ''Start date'' = Inr (Datetime64 price_ts)
      \<and> (\<forall>c \<in> set selected_countries. \<exists>ys. getitem price_df c = Inr (Float64 ys))"
  then show "\<exists>fig. update_price_graph lib w selected_countries start_date end_date
           = Inr (fig,
                  map (\<lambda>c. (c,
                         nanmean lib (rows_between price_ts start_date end_date
                                        (column_floats price_df c)),
                         nanmax (rows_between price_ts start_date end_date
                                    (column_floats price_df c)),
                         nanmin (rows_between price_ts start_date end_date
                                    (column_floats price_df c))))
                    selected_countries)"
    by (elim conjE) (rule price_statistics_filtered)
next
  assume "qs \<noteq> []"
  then show "nansum lib (map Fin qs) = array_sum lib (map Fin qs)"
    by (rule nansum_Fin)
next
  assume "qs \<noteq> []"
  then show "nanmean lib (map Fin qs) = true_divide lib (array_sum lib (map Fin qs)) (length qs)"
    by (rule nanmean_Fin)
next
  assume "qs \<noteq> []"
  then show "nanmax (map Fin qs) = Fin (Max (set qs))"
    by (rule nanmax_Fin)
next
  assume "qs \<noteq> []"
  then show "nanmin (map Fin qs) = Fin (Min (set qs))"
    by (rule nanmin_Fin)
next
  assume "array_sum lib [Fin 10, Fin 20, Fin 30] = Fin 60 \<and> true_divide lib (Fin 60) 3 = Fin 20"
  then show "series_stats lib (Float64 [Fin 10, Fin 20, Fin 30]) = Inr (Fin 20, Fin 30, Fin 10)"
    by (elim conjE) (rule series_stats_prices)
qed

text \<open>
  Both callbacks on the example files, generation over the first two days and prices over
  all three days; the prices 10, 20, 30 have mean 20, maximum 30 and minimum 10.
\<close>

theorem summaries_over_filtered_rows_witness:
  "update_generation_graph example_library three_days [''Biomass'', ''Wind onshore''] (At 1) (At 2)
     = Inr ([\<lparr>trace_x = Datetime64 [At 1, At 2],
               trace_y = Float64 [Fin 1234, Fin 0],
               trace_name = ''Biomass'', trace_fillcolor = Some ''#8884d8''\<rparr>,
             \<lparr>trace_x = Datetime64 [At 1, At 2],
               trace_y = Float64 [Fin (394613 / 4), Fin 100],
               trace_name = ''Wind onshore'', trace_fillcolor = Some ''#82b1ff''\<rparr>],
            [(''Biomass'', Fin 1234), (''Wind onshore'', Fin (395013 / 4))])
   \<and> update_price_graph example_library three_days [''France''] (At 1) (At 3)
     = Inr ([\<lparr>trace_x = Datetime64 [At 1, At 2, At 3],
               trace_y = Float64 [Fin 10, Fin 20, Fin 30],
               trace_name = ''France'', trace_fillcolor = None\<rparr>],
            [(''France'', Fin 20, Fin 30, Fin 10)])
   \<and> array_sum example_library [Fin 10, Fin 20, Fin 30] = Fin 60
   \<and> true_divide example_library (Fin 60) 3 = Fin 20
   \<and> series_stats example_library (Float64 [Fin 10, Fin 20, Fin 30]) = Inr (Fin 20, Fin 30, Fin 10)
   \<and> (\<exists>fig. update_generation_graph example_library three_days [''Biomass'', ''Wind onshore'']
               (At 1) (At 2)
         = Inr (fig,
                map (\<lambda>c. (c, nansum example_library
                               (rows_between [At 1, At 2, At 3] (At 1) (At 2)
                                  (column_floats
                                     [(''Start date'', Datetime64 [At 1, At 2, At 3]),
                                      (''End date'', Object [Str ''2'', Str ''3'', Str ''4'']),
                                      (''Biomass'', Float64 [Fin 1234, Fin 0, Fin (617 / 500)]),
                                      (''Wind onshore'',
                                         Float64 [Fin (394613 / 4), Fin 100, Fin 0])] c))))
                  [''Biomass'', ''Wind onshore'']))"
proof -
  let ?gdf = "[(''Start date'', Datetime64 [At 1, At 2, At 3]),
            (''End date'', Object [Str ''2'', Str ''3'', Str ''4'']),
            (''Biomass'', Float64 [Fin 1234, Fin 0, Fin (617 / 500)]),
            (''Wind onshore'', Float64 [Fin (394613 / 4), Fin 100, Fin 0])]"
  let ?pdf = "[(''Start date'', Datetime64 [At 1, At 2, At 3]),
            (''End date'', Object [Str ''2'', Str ''3'', Str ''4'']),
            (''Germany/Luxembourg'', Float64 [Fin (4567 / 100), Fin 0, Fin (201 / 2)]),
            (''France'', Float64 [Fin 10, Fin 20, Fin 30])]"
  have sd: "getitem ?gdf ''Start date'' = Inr (Datetime64 [At 1, At 2, At 3])"
    by (simp add: getitem_def columns_named_def)
  have sel: "set [''Biomass'', ''Wind onshore''] \<subseteq> fst ` set colors"
      "set [''Biomass'', ''Wind onshore''] \<subseteq> fst ` set ?gdf"
    by (simp_all add: colors_def)
  have g: "update_generation_graph example_library three_days [''Biomass'', ''Wind onshore'']
        (At 1) (At 2)
     = Inr ([\<lparr>trace_x = Datetime64 [At 1, At 2],
               trace_y = Float64 [Fin 1234, Fin 0],
               trace_name = ''Biomass'', trace_fillcolor = Some ''#8884d8''\<rparr>,
             \<lparr>trace_x = Datetime64 [At 1, At 2],
               trace_y = Float64 [Fin (394613 / 4), Fin 100],
               trace_name = ''Wind onshore'', trace_fillcolor = Some ''#82b1ff''\<rparr>],
            [(''Biomass'', Fin 1234), (''Wind onshore'', Fin (395013 / 4))])"
    by (simp add: update_generation_graph_def three_days_generation)
      (simp add: callback_defs load_defs example_defs)
  have p: "update_price_graph example_library three_days [''France''] (At 1) (At 3)
     = Inr ([\<lparr>trace_x = Datetime64 [At 1, At 2, At 3],
               trace_y = Float64 [Fin 10, Fin 20, Fin 30],
               trace_name = ''France'', trace_fillcolor = None\<rparr>],
            [(''France'', Fin 20, Fin 30, Fin 10)])"
    by (simp add: update_price_graph_def three_days_price)
      (simp add: callback_defs load_defs example_defs)
  have s60: "array_sum example_library [Fin 10, Fin 20, Fin 30] = Fin 60"
    by (simp add: example_defs)
  have d20: "true_divide example_library (Fin 60) 3 = Fin 20"
    by (simp add: example_defs)
  note T = summaries_over_filtered_rows
    [where lib = example_library and w = three_days and gen_df = ?gdf
       and gen_ts = "[At 1, At 2, At 3]" and selected_sources = "[''Biomass'', ''Wind onshore'']"
       and start_date = "At 1" and end_date = "At 2"
       and price_df = ?pdf and price_ts = "[At 1, At 2, At 3]"
       and selected_countries = "[''France'']" and qs = "[10, 20, 30]"]
  have st: "series_stats example_library (Float64 [Fin 10, Fin 20, Fin 30])
      = Inr (Fin 20, Fin 30, Fin 10)"
    by (rule mp [OF conjunct2 [OF conjunct2 [OF conjunct2 [OF T]]]]) (intro conjI s60 d20)
  have tot: "\<exists>fig. update_generation_graph example_library three_days [''Biomass'', ''Wind onshore'']
               (At 1) (At 2)
         = Inr (fig,
                map (\<lambda>c. (c, nansum example_library
                               (rows_between [At 1, At 2, At 3] (At 1) (At 2)
                                  (column_floats ?gdf c))))
                  [''Biomass'', ''Wind onshore''])"
    by (rule mp [OF conjunct1 [OF T]]) (intro conjI three_days_generation sd sel)
  show ?thesis
    by (intro conjI) (rule g, rule p, rule s60, rule d20, rule st, rule tot)
qed

text \<open>
  C9. What a loader returns, and what its callback returns, is determined by the
  contents of its own file at the time of the call: two states of the disk that agree on
  the file give the same table and the same outputs. A callback holds no table of its own:
  when the load of the current file fails, the callback fails with the same error.
\<close>

theorem load_determined_by_file:
  "(generation_csv w = generation_csv w' \<longrightarrow>
      load_generation_data lib w = load_generation_data lib w'
      \<and> update_generation_graph lib w selected_sources start_date end_date
          = update_generation_graph lib w' selected_sources start_date end_date)
   \<and> (price_csv w = price_csv w'' \<longrightarrow>
      load_price_data lib w = load_price_data lib w''
      \<and> update_price_graph lib w selected_countries start_date end_date
          = update_price_graph lib w'' selected_countries start_date end_date)
   \<and> (load_generation_data lib v = Inl e \<longrightarrow>
        update_generation_graph lib v selected_sources start_date end_date = Inl e)
   \<and> (load_price_data lib v = Inl e' \<longrightarrow>
        update_price_graph lib v selected_countries start_date end_date = Inl e')"
  using same_file_same_generation [of w w' lib]
    same_file_same_price [of w w'' lib]
  by (simp add: update_generation_graph_def update_price_graph_def)

text \<open>
  The example files with the other file removed, and with the loader's own file removed.
\<close>

theorem load_determined_by_file_witness:
  "generation_csv three_days = generation_csv (three_days\<lparr>price_csv := Inl FileNotFoundError\<rparr>)
   \<and> load_generation_data example_library (three_days\<lparr>price_csv := Inl FileNotFoundError\<rparr>)
       = load_generation_data example_library three_days
   \<and> price_csv three_days = price_csv (three_days\<lparr>generation_csv := Inl FileNotFoundError\<rparr>)
   \<and> load_price_data example_library (three_days\<lparr>generation_csv := Inl FileNotFoundError\<rparr>)
       = load_price_data example_library three_days
   \<and> load_generation_data example_library (three_days\<lparr>generation_csv := Inl FileNotFoundError\<rparr>)
       = Inl FileNotFoundError
   \<and> update_generation_graph example_library
         (three_days\<lparr>generation_csv := Inl FileNotFoundError\<rparr>) [''Biomass''] (At 1) (At 3)
       = Inl FileNotFoundError
   \<and> load_price_data example_library (three_days\<lparr>price_csv := Inl KeyError\<rparr>) = Inl KeyError"
proof -
  have a: "generation_csv three_days
      = generation_csv (three_days\<lparr>price_csv := Inl FileNotFoundError\<rparr>)"
    and b: "price_csv three_days
      = price_csv (three_days\<lparr>generation_csv := Inl FileNotFoundError\<rparr>)"
    by simp_all
  have c: "load_generation_data example_library
        (three_days\<lparr>generation_csv := Inl FileNotFoundError\<rparr>) = Inl FileNotFoundError"
    by (simp add: load_generation_data_def)
  note T1 = load_determined_by_file
    [where w = three_days and w' = "three_days\<lparr>price_csv := Inl FileNotFoundError\<rparr>"
       and w'' = "three_days\<lparr>generation_csv := Inl FileNotFoundError\<rparr>"
       and v = "three_days\<lparr>generation_csv := Inl FileNotFoundError\<rparr>"
       and lib = example_library and e = FileNotFoundError
       and selected_sources = "[''Biomass'']" and start_date = "At 1" and end_date = "At 3"]
  have d: "load_price_data example_library (three_days\<lparr>price_csv := Inl KeyError\<rparr>) = Inl KeyError"
    by (simp add: load_price_data_def)
  from T1 a have e1: "load_generation_data example_library three_days
      = load_generation_data example_library (three_days\<lparr>price_csv := Inl FileNotFoundError\<rparr>)"
    by blast
  from T1 b have e2: "load_price_data example_library three_days
      = load_price_data example_library (three_days\<lparr>generation_csv := Inl FileNotFoundError\<rparr>)"
    by blast
  from T1 c have e3: "update_generation_graph example_library
        (three_days\<lparr>generation_csv := Inl FileNotFoundError\<rparr>) [''Biomass''] (At 1) (At 3)
      = Inl FileNotFoundError"
    by blast
  show ?thesis
    by (intro conjI) (rule a, rule e1 [symmetric], rule b, rule e2 [symmetric], rule c, rule e3, rule d)
qed

text \<open>
  C4 at a failing input. The first market has a missing first field: its field \<open>45,67\<close>
  is left as text. The second market has the same two fields in the other order: its field
  \<open>45,67\<close> becomes 45.67.
\<close>

theorem price_first_field_missing_stays_text:
  "load_price_data example_library
     \<lparr>generation_csv = Inl FileNotFoundError,
      price_csv = Inr
        [(''Start date'', Object [Str ''1'', Str ''2'']),
         (''Germany/Luxembourg [EUR/MWh] Original resolutions'', Object [Missing, Str ''45,67'']),
         (''France [EUR/MWh] Original resolutions'', Object [Str ''45,67'', Missing])]\<rparr>
   = Inr [(''Start date'', Datetime64 [At 1, At 2]),
          (''Germany/Luxembourg'', Object [Missing, Str ''45,67'']),
          (''France'', Float64 [Fin (4567 / 100), NaN])]"
  by (simp add: load_defs example_defs)

text \<open>
  C8 at a failing input. The price loader succeeds and returns a column that still holds
  the texts \<open>0\<close> and \<open>51,2\<close>.
\<close>

theorem price_load_keeps_text_values:
  "load_price_data example_library
     \<lparr>generation_csv = Inl FileNotFoundError,
      price_csv = Inr
        [(''Start date'', Object [Str ''1'', Str ''2'', Str ''3'']),
         (''End date'', Object [Str ''2'', Str ''3'', Str ''4'']),
         (''Belgium [EUR/MWh] Original resolutions'', Object [Missing, Str ''-'', Str ''51,2''])]\<rparr>
   = Inr [(''Start date'', Datetime64 [At 1, At 2, At 3]),
          (''End date'', Object [Str ''2'', Str ''3'', Str ''4'']),
          (''Belgium'', Object [Missing, Str ''0'', Str ''51,2''])]"
  by (simp add: load_defs example_defs)

text \<open>
  C1 as stated fails: over a date range without rows the price callback returns NaN three
  times and raises nothing.
\<close>

theorem price_statistics_nan_counterexample:
  "update_price_graph example_library three_days [''Germany/Luxembourg''] (At 5) (At 9)
     = Inr ([\<lparr>trace_x = Datetime64 [], trace_y = Float64 [],
               trace_name = ''Germany/Luxembourg'', trace_fillcolor = None\<rparr>],
            [(''Germany/Luxembourg'', NaN, NaN, NaN)])"
  by (simp add: update_price_graph_def three_days_price)
    (simp add: callback_defs load_defs example_defs)

text \<open>
  The price callback on the example file over a day without rows, for both markets.
\<close>

theorem price_statistics_zero_rows_witness:
  "load_price_data example_library three_days
     = Inr [(''Start date'', Datetime64 [At 1, At 2, At 3]),
            (''End date'', Object [Str ''2'', Str ''3'', Str ''4'']),
            (''Germany/Luxembourg'', Float64 [Fin (4567 / 100), Fin 0, Fin (201 / 2)]),
            (''France'', Float64 [Fin 10, Fin 20, Fin 30])]
   \<and> filter_by_date [(''Start date'', Datetime64 [At 1, At 2, At 3]),
            (''End date'', Object [Str ''2'', Str ''3'', Str ''4'']),
            (''Germany/Luxembourg'', Float64 [Fin (4567 / 100), Fin 0, Fin (201 / 2)]),
            (''France'', Float64 [Fin 10, Fin 20, Fin 30])] (At 4) (At 4)
     = Inr [(''Start date'', Datetime64 []), (''End date'', Object []),
            (''Germany/Luxembourg'', Float64 []), (''France'', Float64 [])]
   \<and> (\<exists>fig. update_price_graph example_library three_days
              [''France'', ''Germany/Luxembourg''] (At 4) (At 4)
         = Inr (fig, [(''France'', NaN, NaN, NaN), (''Germany/Luxembourg'', NaN, NaN, NaN)]))"
proof -
  let ?pdf = "[(''Start date'', Datetime64 [At 1, At 2, At 3]),
            (''End date'', Object [Str ''2'', Str ''3'', Str ''4'']),
            (''Germany/Luxembourg'', Float64 [Fin (4567 / 100), Fin 0, Fin (201 / 2)]),
            (''France'', Float64 [Fin 10, Fin 20, Fin 30])]"
  let ?dff = "[(''Start date'', Datetime64 []), (''End date'', Object []),
            (''Germany/Luxembourg'', Float64 []), (''France'', Float64 [])]"
  have filt: "filter_by_date ?pdf (At 4) (At 4) = Inr ?dff"
    by (simp add: filter_by_date_def getitem_def columns_named_def date_mask_def df_loc_def
        series_loc_def)
  have zero: "\<forall>(n, s) \<in> set ?dff. series_len s = 0"
    by (simp add: series_len_def)
  have sel: "\<forall>c \<in> set [''France'', ''Germany/Luxembourg''].
      \<exists>s. getitem ?pdf c = Inr s \<and> (\<forall>ts. s \<noteq> Datetime64 ts)"
    by (simp add: getitem_def columns_named_def)
  from price_statistics_zero_rows [OF three_days_price filt zero sel] three_days_price filt
  show ?thesis
    by simp
qed

text \<open>
  The generation callback on the example file with the start date after the end date.
\<close>

theorem generation_summary_zero_rows_witness:
  "load_generation_data example_library three_days
     = Inr [(''Start date'', Datetime64 [At 1, At 2, At 3]),
            (''End date'', Object [Str ''2'', Str ''3'', Str ''4'']),
            (''Biomass'', Float64 [Fin 1234, Fin 0, Fin (617 / 500)]),
            (''Wind onshore'', Float64 [Fin (394613 / 4), Fin 100, Fin 0])]
   \<and> filter_by_date [(''Start date'', Datetime64 [At 1, At 2, At 3]),
            (''End date'', Object [Str ''2'', Str ''3'', Str ''4'']),
            (''Biomass'', Float64 [Fin 1234, Fin 0, Fin (617 / 500)]),
            (''Wind onshore'', Float64 [Fin (394613 / 4), Fin 100, Fin 0])] (At 3) (At 1)
     = Inr [(''Start date'', Datetime64 []), (''End date'', Object []),
            (''Biomass'', Float64 []), (''Wind onshore'', Float64 [])]
   \<and> update_generation_graph example_library three_days [''Wind onshore'', ''Biomass''] (At 3) (At 1)
     = Inr ([\<lparr>trace_x = Datetime64 [], trace_y = Float64 [], trace_name = ''Wind onshore'',
               trace_fillcolor = Some ''#82b1ff''\<rparr>,
             \<lparr>trace_x = Datetime64 [], trace_y = Float64 [], trace_name = ''Biomass'',
               trace_fillcolor = Some ''#8884d8''\<rparr>],
            [(''Wind onshore'', Fin 0), (''Biomass'', Fin 0)])"
proof -
  let ?gdf = "[(''Start date'', Datetime64 [At 1, At 2, At 3]),
            (''End date'', Object [Str ''2'', Str ''3'', Str ''4'']),
            (''Biomass'', Float64 [Fin 1234, Fin 0, Fin (617 / 500)]),
            (''Wind onshore'', Float64 [Fin (394613 / 4), Fin 100, Fin 0])]"
  let ?dff = "[(''Start date'', Datetime64 []), (''End date'', Object []),
            (''Biomass'', Float64 []), (''Wind onshore'', Float64 [])]"
  have filt: "filter_by_date ?gdf (At 3) (At 1) = Inr ?dff"
    by (simp add: filter_by_date_def getitem_def columns_named_def date_mask_def df_loc_def
        series_loc_def)
  have zero: "\<forall>(n, s) \<in> set ?dff. series_len s = 0"
    by (simp add: series_len_def)
  have sel: "set [''Wind onshore'', ''Biomass''] \<subseteq> fst ` set colors"
      "set [''Wind onshore'', ''Biomass''] \<subseteq> fst ` set ?gdf"
    by (simp_all add: colors_def)
  from generation_summary_zero_rows [OF three_days_generation filt zero sel]
    three_days_generation filt
  show ?thesis
    by (simp add: colors_def)
qed

end
